theory Spec2Isabelle
  imports Complex_Main "HOL-Library.Word" "HOL-Library.Sublist"
begin

unbundle bit_operations_syntax

section \<open>Strings and patterns\<close>

text \<open>
  URLs, host names, paths and markup names are ASCII text and are modelled by \<open>string\<close>.
  \<open>toLowerCase\<close> maps the letters A to Z to a to z and leaves every other
  character alone.
\<close>

definition to_lower_char :: "char \<Rightarrow> char" where
  "to_lower_char c =
     (case map_of (zip ''ABCDEFGHIJKLMNOPQRSTUVWXYZ'' ''abcdefghijklmnopqrstuvwxyz'') c of
        None \<Rightarrow> c
      | Some l \<Rightarrow> l)"

definition toLowerCase :: "string \<Rightarrow> string" where
  "toLowerCase s = map to_lower_char s"

text \<open>\<open>s.includes(sub)\<close>: \<open>sub\<close> occurs in \<open>s\<close> as a contiguous piece.\<close>

fun js_includes :: "string \<Rightarrow> string \<Rightarrow> bool" where
  "js_includes [] sub = (sub = [])"
| "js_includes (c # cs) sub = (prefix sub (c # cs) \<or> js_includes cs sub)"

text \<open>\<open>s.split(sep)\<close> for a separator of one character: never an empty list.\<close>

fun split_char :: "char \<Rightarrow> string \<Rightarrow> string list" where
  "split_char sep [] = [[]]"
| "split_char sep (c # cs) =
     (if c = sep then [] # split_char sep cs
      else (case split_char sep cs of
              [] \<Rightarrow> [[c]]
            | p # ps \<Rightarrow> (c # p) # ps))"

text \<open>The character class \<open>\d\<close>.\<close>

definition digits :: string where
  "digits = ''0123456789''"

definition is_digit :: "char \<Rightarrow> bool" where
  "is_digit c = (c \<in> set digits)"

text \<open>
  A pattern that is a sequence of character classes, anchored at the start of the text
  and open at its end, as \<open>/^10\./\<close> is: each class is the string of its members.
\<close>

fun match_seq :: "string list \<Rightarrow> string \<Rightarrow> bool" where
  "match_seq [] s = True"
| "match_seq (cls # r) [] = False"
| "match_seq (cls # r) (c # s) = (c \<in> set cls \<and> match_seq r s)"

text \<open>The classes of a literal text: one class of one character for each.\<close>

definition lit :: "string \<Rightarrow> string list" where
  "lit s = map (\<lambda>c. [c]) s"

text \<open>The decimal numeral of a number, without leading zeros.\<close>

fun dec :: "nat \<Rightarrow> string" where
  "dec n = (if n < 10 then [digits ! n] else dec (n div 10) @ [digits ! (n mod 10)])"

declare dec.simps [simp del]

text \<open>
  \<open>trim\<close> removes white space and line ends at both ends: among the characters of the
  model these are tab, line feed, vertical tab, form feed, carriage return, space and the
  no-break space.
\<close>

definition is_space :: "char \<Rightarrow> bool" where
  "is_space c = ((of_char c :: nat) \<in> set [9, 10, 11, 12, 13, 32, 160])"

definition trim :: "string \<Rightarrow> string" where
  "trim s = rev (dropWhile is_space (rev (dropWhile is_space s)))"

text \<open>\<open>x || null\<close> on an optional string.\<close>

definition or_null :: "string option \<Rightarrow> string option" where
  "or_null a = (case a of None \<Rightarrow> None | Some s \<Rightarrow> if s = [] then None else Some s)"

text \<open>\<open>el.getAttribute(name)\<close> on the attributes of an element, a list of names and values.\<close>

definition getAttribute :: "(string \<times> string) list \<Rightarrow> string \<Rightarrow> string option" where
  "getAttribute el name = map_of el name"

section \<open>API key authentication (src/lib/auth.ts)\<close>

text \<open>
  A JavaScript string is a sequence of UTF-16 code units; \<open>charCodeAt\<close> reads one of
  them. The bitwise operators of JavaScript work on 32-bit integers, which hold every
  code unit unchanged.
\<close>

type_synonym js_string = "16 word list"

text \<open>
  \<open>constantTimeCompare(a, b)\<close>. Both branches run their loop over the indices of
  \<open>a\<close>; the branch for different lengths throws its accumulator away and returns
  \<open>false\<close>. In that branch \<open>b.charCodeAt(i % b.length) || 0\<close> is 0 for an empty
  \<open>b\<close> (the index is NaN and the code unit read is NaN).
\<close>

definition constantTimeCompare :: "js_string \<Rightarrow> js_string \<Rightarrow> bool" where
  "constantTimeCompare a b =
     (if length a \<noteq> length b then
        (let result = fold (\<lambda>i r. r OR (ucast (a ! i) XOR
                  (if length b = 0 then 0 else ucast (b ! (i mod length b)))))
                [0..<length a] (0 :: 32 word)
         in False)
      else
        (let result = fold (\<lambda>i r. r OR (ucast (a ! i) XOR ucast (b ! i)))
                [0..<length a] (0 :: 32 word)
         in result = 0))"

text \<open>
  The value of \<open>req.headers['x-api-key']\<close>: absent, one string, or an array of
  strings.
\<close>

datatype header_value = HeaderString js_string | HeaderArray "js_string list"

datatype js_exception = TypeError

record auth_result =
  authenticated :: bool
  auth_error :: "string option"

text \<open>
  \<open>validateAuth(req)\<close>, with the module constant \<open>API_KEY\<close> (the environment variable
  \<open>BAB_API_KEY\<close>, \<open>None\<close> when unset) as first argument. \<open>!API_KEY\<close> holds for an
  unset and for an empty key; \<open>!providedKey\<close> holds for an absent header and for the
  empty string, not for an array. An empty array gives \<open>providedKey[0] = undefined\<close>,
  whose \<open>length\<close> is read by the comparison: a TypeError.
\<close>

definition validateAuth :: "js_string option \<Rightarrow> header_value option \<Rightarrow> js_exception + auth_result" where
  "validateAuth API_KEY providedKey =
     (if API_KEY = None \<or> API_KEY = Some [] then
        Inr \<lparr>authenticated = True, auth_error = None\<rparr>
      else if providedKey = None \<or> providedKey = Some (HeaderString []) then
        Inr \<lparr>authenticated = False, auth_error = Some ''Invalid or missing API key''\<rparr>
      else
        (case (case the providedKey of
                 HeaderString s \<Rightarrow> Some s
               | HeaderArray [] \<Rightarrow> None
               | HeaderArray (s # _) \<Rightarrow> Some s) of
           None \<Rightarrow> Inl TypeError
         | Some keyString \<Rightarrow>
             if \<not> constantTimeCompare keyString (the API_KEY) then
               Inr \<lparr>authenticated = False, auth_error = Some ''Invalid or missing API key''\<rparr>
             else Inr \<lparr>authenticated = True, auth_error = None\<rparr>))"

text \<open>Whether a call of \<open>validateAuth\<close> returned \<open>authenticated: true\<close>.\<close>

definition is_authenticated :: "js_exception + auth_result \<Rightarrow> bool" where
  "is_authenticated r = (case r of Inl _ \<Rightarrow> False | Inr a \<Rightarrow> authenticated a)"

text \<open>
  The header value a request presents as its key, in the words of the specification: the
  string itself, or the first string of an array.
\<close>

definition presented_key :: "header_value option \<Rightarrow> js_string option" where
  "presented_key h =
     (case h of
        None \<Rightarrow> None
      | Some (HeaderString s) \<Rightarrow> Some s
      | Some (HeaderArray []) \<Rightarrow> None
      | Some (HeaderArray (s # _)) \<Rightarrow> Some s)"

section \<open>URL safety validation (src/lib/ssrf.ts)\<close>

text \<open>
  The fields of a parsed \<open>URL\<close> object that the repository reads. The constructor
  \<open>new URL(s)\<close> belongs to the platform; the functions below take it as the parameter
  \<open>new_URL\<close>, which is \<open>None\<close> where the constructor throws.
\<close>

record url =
  url_protocol :: string
  url_hostname :: string
  url_pathname :: string
  url_origin :: string
  url_href :: string

datatype error_code =
  INVALID_URL | BLOCKED_URL | FETCH_FAILED | TIMEOUT | CONTENT_TOO_LARGE
  | PARSE_FAILED | UNSUPPORTED | DISCOVERY_FAILED

record url_validation_result =
  valid :: bool
  error :: "(error_code \<times> string) option"
  validated_url :: "url option"

text \<open>
  \<open>PRIVATE_IPV4_RANGES\<close>: each pattern is the list of its alternatives, each alternative
  a sequence of character classes. The second pattern,
  \<open>/^172\.(1[6-9]|2[0-9]|3[0-1])\./\<close>, has three.
\<close>

definition PRIVATE_IPV4_RANGES :: "string list list list" where
  "PRIVATE_IPV4_RANGES =
     [[lit ''10.''],
      [lit ''172.'' @ [''1'', ''6789'', ''.''],
       lit ''172.'' @ [''2'', digits, ''.''],
       lit ''172.'' @ [''3'', ''01'', ''.'']],
      [lit ''192.168.''],
      [lit ''127.''],
      [lit ''169.254.''],
      [lit ''0.'']]"

definition BLOCKED_HOSTNAMES :: "string list" where
  "BLOCKED_HOSTNAMES =
     [''localhost'', ''metadata.google.internal'', ''169.254.169.254'',
      ''metadata.azure.com'', ''[::1]'']"

text \<open>
  \<open>BLOCKED_HOSTNAME_PATTERNS\<close>: \<open>/\.local$/i\<close>, \<open>/\.internal$/i\<close> and
  \<open>/\.localhost$/i\<close>, each given by the text its match ends with; the flag \<open>i\<close>
  compares without regard to case.
\<close>

definition BLOCKED_HOSTNAME_PATTERNS :: "string list" where
  "BLOCKED_HOSTNAME_PATTERNS = [''.local'', ''.internal'', ''.localhost'']"

definition isPrivateIPv4 :: "string \<Rightarrow> bool" where
  "isPrivateIPv4 ip =
     list_ex (\<lambda>pattern. list_ex (\<lambda>alt. match_seq alt ip) pattern) PRIVATE_IPV4_RANGES"

definition isPrivateIPv6 :: "string \<Rightarrow> bool" where
  "isPrivateIPv6 ip =
     (let normalized = toLowerCase ip in
      if normalized = ''::1'' \<or> normalized = ''[::1]'' then True
      else if prefix ''fc'' normalized \<or> prefix ''fd'' normalized then True
      else if prefix ''fe80'' normalized then True
      else False)"

definition isBlockedHostname :: "string \<Rightarrow> bool" where
  "isBlockedHostname hostname =
     (let lower = toLowerCase hostname in
      if List.member BLOCKED_HOSTNAMES lower then True
      else if list_ex (\<lambda>pattern. suffix pattern (toLowerCase lower)) BLOCKED_HOSTNAME_PATTERNS
      then True
      else False)"

text \<open>
  \<open>looksLikeIP\<close>. The first test is \<open>/^\d{1,3}\.\d{1,3}\.\d{1,3}\.\d{1,3}$/\<close>: as a
  digit is never a dot, the text matches exactly when its pieces between dots are four
  groups of one to three digits.
\<close>

definition looksLikeIP :: "string \<Rightarrow> bool" where
  "looksLikeIP hostname =
     (if (let groups = split_char CHR ''.'' hostname in
          length groups = 4 \<and>
          list_all (\<lambda>g. 1 \<le> length g \<and> length g \<le> 3 \<and> list_all is_digit g) groups)
      then True
      else if js_includes hostname '':'' \<or> prefix ''['' hostname then True
      else False)"

text \<open>
  \<open>hostname.replace(/^\[|\]$/g, '')\<close>: a leading \<open>[\<close> and a trailing \<open>]\<close> are
  removed.
\<close>

definition strip_brackets :: "string \<Rightarrow> string" where
  "strip_brackets s =
     (let s1 = (if prefix ''['' s then tl s else s)
      in if s1 \<noteq> [] \<and> last s1 = CHR '']'' then butlast s1 else s1)"

definition validateUrl :: "(string \<Rightarrow> url option) \<Rightarrow> string \<Rightarrow> url_validation_result" where
  "validateUrl new_URL urlString =
     (case new_URL urlString of
        None \<Rightarrow>
          \<lparr>valid = False, error = Some (INVALID_URL, ''URL is malformed''), validated_url = None\<rparr>
      | Some u \<Rightarrow>
          if url_protocol u \<noteq> ''http:'' \<and> url_protocol u \<noteq> ''https:'' then
            \<lparr>valid = False,
             error = Some (INVALID_URL, ''URL must use HTTP or HTTPS protocol''), validated_url = None\<rparr>
          else
            let hostname = toLowerCase (url_hostname u) in
            if isBlockedHostname hostname then
              \<lparr>valid = False,
               error = Some (BLOCKED_URL, ''URL points to a blocked host''), validated_url = None\<rparr>
            else if looksLikeIP hostname then
              (let cleanIP = strip_brackets hostname in
               if isPrivateIPv4 cleanIP then
                 \<lparr>valid = False,
                  error = Some (BLOCKED_URL, ''URL points to a private IP address''),
                  validated_url = None\<rparr>
               else if isPrivateIPv6 cleanIP then
                 \<lparr>valid = False,
                  error = Some (BLOCKED_URL, ''URL points to a private IPv6 address''),
                  validated_url = None\<rparr>
               else \<lparr>valid = True, error = None, validated_url = Some u\<rparr>)
            else \<lparr>valid = True, error = None, validated_url = Some u\<rparr>)"

text \<open>The error code of a validation result, if it carries one.\<close>

definition error_code_of :: "url_validation_result \<Rightarrow> error_code option" where
  "error_code_of r = map_option fst (error r)"

text \<open>
  The host name of a URL whose host is the IPv4 address \<open>a.b.c.d\<close>: the platform's
  parser writes the four numbers in decimal, separated by dots.
\<close>

definition ipv4_literal :: "nat \<Rightarrow> nat \<Rightarrow> nat \<Rightarrow> nat \<Rightarrow> string" where
  "ipv4_literal a b c d = dec a @ ''.'' @ dec b @ ''.'' @ dec c @ ''.'' @ dec d"

text \<open>
  The address ranges of the specification: 10.0.0.0/8, 172.16.0.0/12, 192.168.0.0/16,
  127.0.0.0/8, 169.254.0.0/16 and 0.0.0.0/8, by the first two numbers of an address.
\<close>

definition private_ipv4 :: "nat \<Rightarrow> nat \<Rightarrow> bool" where
  "private_ipv4 a b =
     (a = 10 \<or> (a = 172 \<and> 16 \<le> b \<and> b \<le> 31) \<or> (a = 192 \<and> b = 168) \<or> a = 127
      \<or> (a = 169 \<and> b = 254) \<or> a = 0)"

text \<open>
  A URL parser given by a finite table, for concrete examples: each entry pairs a URL
  text with the object the platform's parser builds from it.
\<close>

definition table_URL :: "(string \<times> url) list \<Rightarrow> string \<Rightarrow> url option" where
  "table_URL tbl s = map_of tbl s"

definition ftp_10_0_0_1 :: url where
  "ftp_10_0_0_1 =
     \<lparr>url_protocol = ''ftp:'', url_hostname = ''10.0.0.1'', url_pathname = ''/'',
      url_origin = ''ftp://10.0.0.1'', url_href = ''ftp://10.0.0.1/''\<rparr>"

definition http_fe90 :: url where
  "http_fe90 =
     \<lparr>url_protocol = ''http:'', url_hostname = ''[fe90::1]'', url_pathname = ''/'',
      url_origin = ''http://[fe90::1]'', url_href = ''http://[fe90::1]/''\<rparr>"

definition http_10_0_0_1 :: url where
  "http_10_0_0_1 =
     \<lparr>url_protocol = ''http:'', url_hostname = ''10.0.0.1'', url_pathname = ''/'',
      url_origin = ''http://10.0.0.1'', url_href = ''http://10.0.0.1/''\<rparr>"

definition https_8_8_8_8 :: url where
  "https_8_8_8_8 =
     \<lparr>url_protocol = ''https:'', url_hostname = ''8.8.8.8'', url_pathname = ''/'',
      url_origin = ''https://8.8.8.8'', url_href = ''https://8.8.8.8/''\<rparr>"

section \<open>Content-depth analysis (src/api/discover.ts, analyzeFullContent)\<close>

text \<open>
  An item of a parsed feed, as \<open>rss-parser\<close> hands it over: every field may be
  missing. \<open>item_content_encoded\<close> is the field \<open>content:encoded\<close>.
\<close>

record feed_item =
  item_title :: "string option"
  item_link :: "string option"
  item_pubDate :: "string option"
  item_isoDate :: "string option"
  item_content :: "string option"
  item_content_encoded :: "string option"
  item_contentSnippet :: "string option"
  item_summary :: "string option"

record content_analysis =
  has_full_content :: bool
  average_content_length :: int
  sample_size :: nat

text \<open>
  \<open>a || b\<close> on strings: the empty string and \<open>undefined\<close> are falsy.
\<close>

definition or_else :: "string option \<Rightarrow> string \<Rightarrow> string" where
  "or_else a b = (case a of None \<Rightarrow> b | Some s \<Rightarrow> if s = [] then b else s)"

text \<open>
  \<open>(item.content || contentEncoded || '').length\<close> and
  \<open>(item.contentSnippet || item.summary || '').length\<close>.
\<close>

definition contentLength :: "feed_item \<Rightarrow> nat" where
  "contentLength item =
     (let contentEncoded = or_else (item_content_encoded item) []
      in length (or_else (item_content item) (or_else (Some contentEncoded) [])))"

definition descriptionLength :: "feed_item \<Rightarrow> nat" where
  "descriptionLength item =
     length (or_else (item_contentSnippet item) (or_else (item_summary item) []))"

text \<open>
  One round of the loop over the sample, on the pair of counters
  \<open>(fullContentCount, totalContentLength)\<close>. The lengths are small integers, on which
  the products and quotients of JavaScript numbers below are exact up to the last rounding;
  they are modelled by rationals. \<open>Math.round\<close> rounds half up.
\<close>

definition analyze_item :: "feed_item \<Rightarrow> nat \<times> nat \<Rightarrow> nat \<times> nat" where
  "analyze_item item acc =
     (case acc of (fullContentCount, totalContentLength) \<Rightarrow>
        let hasSubstantialContent = contentLength item > 500;
            contentLongerThanDesc =
              (of_nat (contentLength item) > of_nat (descriptionLength item) * (3 / 2 :: rat))
        in (if hasSubstantialContent \<and> contentLongerThanDesc
            then fullContentCount + 1 else fullContentCount,
            totalContentLength + contentLength item))"

definition analyzeFullContent :: "feed_item list \<Rightarrow> nat \<Rightarrow> content_analysis" where
  "analyzeFullContent items sampleSize =
     (let sample = take sampleSize items in
      case fold analyze_item sample (0, 0) of (fullContentCount, totalContentLength) \<Rightarrow>
        \<lparr>has_full_content =
           (if length sample > 0
            then (of_nat fullContentCount / of_nat (length sample) :: rat) \<ge> 6 / 10
            else False),
         average_content_length =
           (if length sample > 0
            then \<lfloor>(of_nat totalContentLength / of_nat (length sample) :: rat) + 1 / 2\<rfloor>
            else 0),
         sample_size = length sample\<rparr>)"



section \<open>Input classification (src/api/discover.ts)\<close>

text \<open>
  \<open>isUsernameInput\<close>: the test \<open>/^@?[a-zA-Z0-9_-]+$/\<close>, an optional \<open>@\<close> followed
  by one or more characters of the class up to the end of the text, and no dot anywhere.
\<close>

definition username_chars :: string where
  "username_chars =
     ''abcdefghijklmnopqrstuvwxyzABCDEFGHIJKLMNOPQRSTUVWXYZ0123456789_-''"

definition isUsernameInput :: "string \<Rightarrow> bool" where
  "isUsernameInput input =
     ((let r = (case input of c # cs \<Rightarrow> if c = CHR ''@'' then cs else input | [] \<Rightarrow> input)
       in r \<noteq> [] \<and> list_all (\<lambda>c. c \<in> set username_chars) r)
      \<and> \<not> js_includes input ''.'')"

text \<open>\<open>input.replace(/^@/, '')\<close>: a leading \<open>@\<close> is removed.\<close>

definition strip_at :: "string \<Rightarrow> string" where
  "strip_at input = (case input of c # cs \<Rightarrow> if c = CHR ''@'' then cs else input | [] \<Rightarrow> input)"

definition normalizeUrl :: "string \<Rightarrow> string" where
  "normalizeUrl input =
     (let trimmed = trim input in
      if prefix ''http://'' trimmed \<or> prefix ''https://'' trimmed then trimmed
      else ''https://'' @ trimmed)"

datatype input_type = Homepage | Article | Feed

text \<open>A pattern of character classes found anywhere in the text, as \<open>/\/\d{4}\//\<close> is.\<close>

fun search_seq :: "string list \<Rightarrow> string \<Rightarrow> bool" where
  "search_seq pat [] = match_seq pat []"
| "search_seq pat (c # cs) = (match_seq pat (c # cs) \<or> search_seq pat cs)"

definition detectInputType :: "url \<Rightarrow> input_type" where
  "detectInputType u =
     (let path = toLowerCase (url_pathname u) in
      if suffix ''.xml'' path \<or> suffix ''.rss'' path \<or> suffix ''.atom'' path \<or>
         js_includes path ''/feed'' \<or> js_includes path ''/rss'' \<or> js_includes path ''/atom''
      then Feed
      else if search_seq [''/'', digits, digits, digits, digits, ''/''] path \<or>
         js_includes path ''/post/'' \<or> js_includes path ''/posts/'' \<or>
         js_includes path ''/article/'' \<or> js_includes path ''/articles/'' \<or>
         (js_includes path ''/blog/'' \<and> length (split_char CHR ''/'' path) > 3)
      then Article
      else Homepage)"

text \<open>
  The patterns of \<open>extractHomepageUrl\<close> all start with \<open>^(.*?)\<close>: the group takes the
  shortest start of the path after which the rest of the pattern matches, and \<open>.\<close> does
  not match a line end. \<open>lazy_prefix rest_matches path\<close> is that group, \<open>None\<close> when
  the pattern does not match.
\<close>

definition is_line_terminator :: "char \<Rightarrow> bool" where
  "is_line_terminator c = ((of_char c :: nat) \<in> set [10, 13])"

fun lazy_prefix :: "(string \<Rightarrow> bool) \<Rightarrow> string \<Rightarrow> string option" where
  "lazy_prefix rest_matches [] = (if rest_matches [] then Some [] else None)"
| "lazy_prefix rest_matches (c # cs) =
     (if rest_matches (c # cs) then Some []
      else if is_line_terminator c then None
      else map_option ((#) c) (lazy_prefix rest_matches cs))"

text \<open>A sequence of classes followed by \<open>.*$\<close>: no line end in what follows.\<close>

definition match_then_any :: "string list \<Rightarrow> string \<Rightarrow> bool" where
  "match_then_any pat s =
     (match_seq pat s \<and> list_all (\<lambda>c. \<not> is_line_terminator c) (drop (length pat) s))"

text \<open>
  \<open>articlePatterns\<close>, in the order of the source:
  \<open>/^(.*?)\/\d{4}\/\d{2}\/.*$/\<close>, \<open>/^(.*?)\/\d{4}\/.*$/\<close>, \<open>/^(.*?)\/posts?\/.*$/\<close>,
  \<open>/^(.*?)\/articles?\/.*$/\<close> and \<open>/^(.*?)\/blog\/[^/]+$/\<close>. Each gives its first
  group.
\<close>

definition articlePatterns :: "(string \<Rightarrow> string option) list" where
  "articlePatterns =
     [lazy_prefix (match_then_any [''/'', digits, digits, digits, digits, ''/'', digits, digits, ''/'']),
      lazy_prefix (match_then_any [''/'', digits, digits, digits, digits, ''/'']),
      lazy_prefix (\<lambda>s. match_then_any (lit ''/post/'') s \<or> match_then_any (lit ''/posts/'') s),
      lazy_prefix (\<lambda>s. match_then_any (lit ''/article/'') s \<or> match_then_any (lit ''/articles/'') s),
      lazy_prefix (\<lambda>s. prefix ''/blog/'' s \<and> drop 6 s \<noteq> [] \<and> CHR ''/'' \<notin> set (drop 6 s))]"

text \<open>
  The loop of \<open>extractHomepageUrl\<close> over the patterns: the first that matches returns
  \<open>url.origin\<close> followed by \<open>basePath || '/'\<close>; when none matches the origin is
  returned.
\<close>

fun first_pattern :: "(string \<Rightarrow> string option) list \<Rightarrow> string \<Rightarrow> string \<Rightarrow> string" where
  "first_pattern [] path orig = orig"
| "first_pattern (pattern # patterns) path orig =
     (case pattern path of
        Some basePath \<Rightarrow> orig @ (if basePath = [] then ''/'' else basePath)
      | None \<Rightarrow> first_pattern patterns path orig)"

definition extractHomepageUrl :: "url \<Rightarrow> string" where
  "extractHomepageUrl u = first_pattern articlePatterns (url_pathname u) (url_origin u)"

text \<open>
  The object the platform's parser builds from
  \<open>https://example.com/2024/01/my-post\<close>.
\<close>

definition example_article :: url where
  "example_article =
     \<lparr>url_protocol = ''https:'', url_hostname = ''example.com'',
      url_pathname = ''/2024/01/my-post'', url_origin = ''https://example.com'',
      url_href = ''https://example.com/2024/01/my-post''\<rparr>"

section \<open>Feed discovery (src/api/discover.ts)\<close>

subsection \<open>The platform\<close>

text \<open>
  An error value that a platform call throws, with what the handler reads of it.
\<close>

record js_error =
  err_is_Error :: bool
  err_name :: string
  err_message :: string

text \<open>
  A response of \<open>fetch\<close>: \<open>r_body\<close> is what reading the body gives, the bytes or the
  error thrown while reading. \<open>response.ok\<close> holds for the status codes 200 to 299.
\<close>

record http_response =
  r_status :: nat
  r_statusText :: string
  r_content_type :: "string option"
  r_body :: "js_error + string"

definition ok :: "http_response \<Rightarrow> bool" where
  "ok r = (200 \<le> r_status r \<and> r_status r \<le> 299)"

datatype fetch_outcome = Throws js_error | Responds http_response

text \<open>
  The network requests of the handler differ in method and headers by the place that
  issues them: the check of a feed URL (GET), the read of a feed by \<open>rss-parser\<close>, the
  search for images on the page a feed links to (GET), the read of the homepage (GET)
  and the probe of a feed path (HEAD).
\<close>

datatype fetch_kind = FeedValidation | FeedParse | ImageDiscovery | HomepageFetch | FeedProbe

type_synonym trace = "(fetch_kind \<times> string) list"

text \<open>
  An element of a parsed page is given by its attributes; a page by what its selector
  queries return. The selectors of the source are
  \<open>link[rel="alternate"]\<close>, \<open>link[rel="icon"][type="image/png"]\<close>,
  \<open>link[rel="apple-touch-icon"]\<close>, \<open>link[rel="icon"]\<close>, \<open>link[rel="shortcut icon"]\<close>,
  \<open>meta[property="og:image"]\<close> and \<open>meta[name="twitter:image"]\<close>.
\<close>

type_synonym element = "(string \<times> string) list"

datatype selector =
  LinkAlternate | LinkIconPng | LinkAppleTouchIcon | LinkIcon | LinkShortcutIcon
  | MetaOgImage | MetaTwitterImage

record html_document =
  querySelectorAll :: "selector \<Rightarrow> element list"

definition querySelector :: "html_document \<Rightarrow> selector \<Rightarrow> element option" where
  "querySelector document sel =
     (case querySelectorAll document sel of [] \<Rightarrow> None | el # _ \<Rightarrow> Some el)"

text \<open>What \<open>rss-parser\<close> returns for a feed.\<close>

record parsed_feed =
  feed_title :: "string option"
  feed_description :: "string option"
  feed_link :: "string option"
  feed_language :: "string option"
  feed_lastBuildDate :: "string option"
  feed_items :: "feed_item list option"

text \<open>A value of JavaScript, as a request body can be.\<close>

datatype js_value =
  JUndefined | JNull | JBool bool | JNumber rat | JString string
  | JArray "js_value list" | JObject "(string \<times> js_value) list"

text \<open>
  The platform and the configuration a request is handled in. Every call that can throw
  gives \<open>None\<close>, \<open>Inl\<close> or \<open>Throws\<close> where it does. \<open>env_resolve_URL url base\<close> is
  \<open>new URL(url, base).href\<close>; \<open>env_parseURL\<close> is the read of a feed by
  \<open>rss-parser\<close>, a network request to the URL it is given. The time limits passed to the
  requests are not modelled: a request that runs out of time is one that throws.
  \<open>fetch\<close> follows redirects by itself; the requests it makes then are not part of the
  trace.
\<close>

record env =
  env_API_KEY :: "js_string option"
  env_MAX_HTML_SIZE_MB :: nat
  env_new_URL :: "string \<Rightarrow> url option"
  env_resolve_URL :: "string \<Rightarrow> string \<Rightarrow> string option"
  env_fetch :: "fetch_kind \<Rightarrow> string \<Rightarrow> fetch_outcome"
  env_parseURL :: "string \<Rightarrow> parsed_feed option"
  env_parseHTML :: "string \<Rightarrow> js_error + html_document"
  env_JSON_parse :: "string \<Rightarrow> js_value option"

subsection \<open>Configuration (src/lib/config.ts)\<close>

definition COMMON_FEED_PATHS :: "string list" where
  "COMMON_FEED_PATHS =
     [''/feed'', ''/rss'', ''/atom.xml'', ''/feed.xml'', ''/rss.xml'', ''/index.xml'',
      ''/feeds/posts/default'', ''/blog/feed'', ''/feed/rss'', ''/feed/atom'']"

definition MAX_HTML_SIZE :: "env \<Rightarrow> nat" where
  "MAX_HTML_SIZE e = env_MAX_HTML_SIZE_MB e * 1024 * 1024"

subsection \<open>Helpers\<close>

text \<open>\<open>resolveUrl\<close> (src/lib/sanitize.ts).\<close>

definition resolveUrl :: "env \<Rightarrow> string \<Rightarrow> string \<Rightarrow> string" where
  "resolveUrl e u baseUrl =
     (if u = [] then u
      else if prefix ''http://'' u \<or> prefix ''https://'' u then u
      else if prefix ''data:'' u then u
      else (case env_resolve_URL e u baseUrl of Some h \<Rightarrow> h | None \<Rightarrow> u))"

datatype feed_type = Rss | Atom | Unknown

record FeedInfo =
  fi_url :: string
  fi_title :: "string option"
  fi_type :: feed_type

record FeedMetadata =
  md_title :: string
  md_description :: "string option"
  md_link :: string
  md_language :: "string option"
  md_last_build_date :: "string option"

record Images =
  site_icon :: "string option"
  og_image :: "string option"

record RecentPost =
  rp_title :: string
  rp_link :: string
  rp_pub_date :: "string option"

text \<open>
  One round of the loop of \<open>discoverFeedsFromHtml\<close>: \<open>None\<close> is \<open>continue\<close>. The
  third test of the chain holds whenever it is reached, so no link is kept with the type
  \<open>unknown\<close>.
\<close>

definition feed_of_link :: "env \<Rightarrow> string \<Rightarrow> element \<Rightarrow> FeedInfo option" where
  "feed_of_link e baseUrl link =
     (let type = map_option toLowerCase (getAttribute link ''type'');
          href = getAttribute link ''href'';
          title = getAttribute link ''title'';
          type_includes = (\<lambda>sub. case type of None \<Rightarrow> False | Some t \<Rightarrow> js_includes t sub)
      in if or_null href = None then None
         else if type_includes ''rss'' then
           Some \<lparr>fi_url = resolveUrl e (the href) baseUrl, fi_title = or_null title, fi_type = Rss\<rparr>
         else if type_includes ''atom'' then
           Some \<lparr>fi_url = resolveUrl e (the href) baseUrl, fi_title = or_null title, fi_type = Atom\<rparr>
         else if \<not> type_includes ''rss'' \<and> \<not> type_includes ''atom'' then None
         else
           Some \<lparr>fi_url = resolveUrl e (the href) baseUrl, fi_title = or_null title,
                 fi_type = Unknown\<rparr>)"

definition discoverFeedsFromHtml :: "env \<Rightarrow> html_document \<Rightarrow> string \<Rightarrow> FeedInfo list" where
  "discoverFeedsFromHtml e document baseUrl =
     List.map_filter (feed_of_link e baseUrl) (querySelectorAll document LinkAlternate)"

text \<open>
  \<open>extractFavicon\<close>: the first selector whose element has a non-empty \<open>href\<close>; else
  \<open>/favicon.ico\<close> at the origin of the base URL.
\<close>

fun favicon_loop :: "env \<Rightarrow> html_document \<Rightarrow> string \<Rightarrow> selector list \<Rightarrow> string option" where
  "favicon_loop e document baseUrl [] =
     (case env_new_URL e baseUrl of
        Some u \<Rightarrow> Some (url_origin u @ ''/favicon.ico'')
      | None \<Rightarrow> None)"
| "favicon_loop e document baseUrl (sel # sels) =
     (case querySelector document sel of
        None \<Rightarrow> favicon_loop e document baseUrl sels
      | Some link \<Rightarrow>
          (case or_null (getAttribute link ''href'') of
             Some h \<Rightarrow> Some (resolveUrl e h baseUrl)
           | None \<Rightarrow> favicon_loop e document baseUrl sels))"

definition extractFavicon :: "env \<Rightarrow> html_document \<Rightarrow> string \<Rightarrow> string option" where
  "extractFavicon e document baseUrl =
     favicon_loop e document baseUrl [LinkIconPng, LinkAppleTouchIcon, LinkIcon, LinkShortcutIcon]"

definition meta_content :: "html_document \<Rightarrow> selector \<Rightarrow> string option" where
  "meta_content document sel =
     (case querySelector document sel of
        None \<Rightarrow> None
      | Some m \<Rightarrow> or_null (getAttribute m ''content''))"

definition extractOgImage :: "env \<Rightarrow> html_document \<Rightarrow> string \<Rightarrow> string option" where
  "extractOgImage e document baseUrl =
     (case meta_content document MetaOgImage of
        Some c \<Rightarrow> Some (resolveUrl e c baseUrl)
      | None \<Rightarrow>
          (case meta_content document MetaTwitterImage of
             Some c \<Rightarrow> Some (resolveUrl e c baseUrl)
           | None \<Rightarrow> None))"

subsection \<open>Probing the common feed paths\<close>

text \<open>
  One probe: the callback that \<open>probeFeedPaths\<close> maps over a batch. It returns the
  candidate, if any, and the request it issued, if any. The requests of a batch are
  issued in the order of its paths and their results are collected in that order.
\<close>

definition probe_path :: "env \<Rightarrow> string \<Rightarrow> string \<Rightarrow> FeedInfo option \<times> trace" where
  "probe_path e orig path =
     (let u = orig @ path;
          validation = validateUrl (env_new_URL e) u
      in if \<not> valid validation then (None, [])
         else
           (case env_fetch e FeedProbe u of
              Throws _ \<Rightarrow> None
            | Responds response \<Rightarrow>
                if ok response then
                  (let contentType = or_else (r_content_type response) [] in
                   if js_includes contentType ''xml'' \<or> js_includes contentType ''rss'' \<or>
                      js_includes contentType ''atom''
                   then Some \<lparr>fi_url = u, fi_title = None,
                               fi_type = (if js_includes contentType ''atom'' then Atom else Rss)\<rparr>
                   else None)
                else None,
            [(FeedProbe, u)]))"

text \<open>
  The loop \<open>for (let i = 0; i < COMMON_FEED_PATHS.length; i += batchSize)\<close> with
  \<open>batchSize = 3\<close>, on the list \<open>feeds\<close> and the trace of requests so far.
\<close>

function probe_loop :: "env \<Rightarrow> string \<Rightarrow> string list \<Rightarrow> nat \<Rightarrow> FeedInfo list \<Rightarrow> trace
    \<Rightarrow> FeedInfo list \<times> trace" where
  "probe_loop e orig paths i feeds tr =
     (if i < length paths then
        (let batch = take 3 (drop i paths);
             results = map (probe_path e orig) batch;
             feeds' = feeds @ List.map_filter fst results;
             tr' = tr @ concat (map snd results)
         in if length feeds' > 0 then (feeds', tr')
            else probe_loop e orig paths (i + 3) feeds' tr')
      else (feeds, tr))"
  by pat_completeness auto
termination
  by (relation "measure (\<lambda>(e, orig, paths, i, feeds, tr). length paths - i)") auto

declare probe_loop.simps [simp del]

definition probeFeedPaths :: "env \<Rightarrow> string \<Rightarrow> FeedInfo list \<times> trace" where
  "probeFeedPaths e orig = probe_loop e orig COMMON_FEED_PATHS 0 [] []"

subsection \<open>Reading a feed\<close>

definition parseFeed ::
    "env \<Rightarrow> string \<Rightarrow> (FeedMetadata \<times> RecentPost list \<times> content_analysis) option \<times> trace" where
  "parseFeed e feedUrl =
     (case env_parseURL e feedUrl of
        None \<Rightarrow> None
      | Some feed \<Rightarrow>
          (let items = (case feed_items feed of None \<Rightarrow> [] | Some its \<Rightarrow> its);
               metadata =
                 \<lparr>md_title = or_else (feed_title feed) ''Untitled'',
                  md_description = or_null (feed_description feed),
                  md_link = or_else (feed_link feed) feedUrl,
                  md_language = or_null (feed_language feed),
                  md_last_build_date = or_null (feed_lastBuildDate feed)\<rparr>;
               posts = map (\<lambda>item.
                   \<lparr>rp_title = or_else (item_title item) ''Untitled'',
                    rp_link = or_else (item_link item) [],
                    rp_pub_date =
                      (case or_null (item_pubDate item) of
                         Some d \<Rightarrow> Some d
                       | None \<Rightarrow> or_null (item_isoDate item))\<rparr>) (take 3 items);
               contentAnalysis = analyzeFullContent items 5
           in Some (metadata, posts, contentAnalysis)),
      [(FeedParse, feedUrl)])"

definition validateFeedUrl :: "env \<Rightarrow> string \<Rightarrow> bool \<times> trace" where
  "validateFeedUrl e u =
     (case env_fetch e FeedValidation u of
        Throws _ \<Rightarrow> False
      | Responds response \<Rightarrow>
          if \<not> ok response then False
          else (case r_body response of
                  Inl _ \<Rightarrow> False
                | Inr text \<Rightarrow>
                    js_includes text ''<rss'' \<or> js_includes text ''<feed'' \<or>
                    js_includes text ''<channel''),
      [(FeedValidation, u)])"

subsection \<open>Probing, in the words of the specification\<close>

text \<open>
  The batches that the loop of \<open>probeFeedPaths\<close> cuts from a list of paths, from index
  \<open>i\<close> on: \<open>paths.slice(i, i + 3)\<close> for \<open>i\<close>, \<open>i + 3\<close>, and so on.
\<close>

function slices :: "string list \<Rightarrow> nat \<Rightarrow> string list list" where
  "slices paths i =
     (if i < length paths then take 3 (drop i paths) # slices paths (i + 3) else [])"
  by pat_completeness auto
termination
  by (relation "measure (\<lambda>(paths, i). length paths - i)") auto

declare slices.simps [simp del]

text \<open>The candidates that a batch yields, and the requests that it issues.\<close>

definition probe_hits :: "env \<Rightarrow> string \<Rightarrow> string list \<Rightarrow> FeedInfo list" where
  "probe_hits e orig batch = List.map_filter (\<lambda>path. fst (probe_path e orig path)) batch"

definition probe_requests :: "env \<Rightarrow> string \<Rightarrow> string list \<Rightarrow> trace" where
  "probe_requests e orig batch = concat (map (\<lambda>path. snd (probe_path e orig path)) batch)"

text \<open>
  Probing by batches with the stop rule of the specification: the batches without a
  candidate are all examined, the first batch with a candidate is the last one examined
  and gives the result.
\<close>

definition probe_batches :: "env \<Rightarrow> string \<Rightarrow> string list list \<Rightarrow> FeedInfo list \<times> trace" where
  "probe_batches e orig bs =
     (let missed = takeWhile (\<lambda>b. probe_hits e orig b = []) bs;
          rest = dropWhile (\<lambda>b. probe_hits e orig b = []) bs
      in ((case rest of [] \<Rightarrow> [] | b # _ \<Rightarrow> probe_hits e orig b),
          concat (map (probe_requests e orig) (missed @ take 1 rest))))"

text \<open>
  A response that makes a probe a candidate: its status is 200 to 299 and its content
  type contains \<open>xml\<close>, \<open>rss\<close> or \<open>atom\<close>.
\<close>

definition feed_like :: "fetch_outcome \<Rightarrow> bool" where
  "feed_like out =
     (case out of
        Throws _ \<Rightarrow> False
      | Responds r \<Rightarrow>
          200 \<le> r_status r \<and> r_status r \<le> 299 \<and>
          (case r_content_type r of
             None \<Rightarrow> False
           | Some t \<Rightarrow> js_includes t ''xml'' \<or> js_includes t ''rss'' \<or> js_includes t ''atom''))"

text \<open>The batches of the common feed paths.\<close>

definition feed_batches :: "string list list" where
  "feed_batches =
     [[''/feed'', ''/rss'', ''/atom.xml''],
      [''/feed.xml'', ''/rss.xml'', ''/index.xml''],
      [''/feeds/posts/default'', ''/blog/feed'', ''/feed/rss''],
      [''/feed/atom'']]"

subsection \<open>A site for the examples\<close>

text \<open>
  The URL objects of the site \<open>https://blog.example.com\<close>: its homepage and the ten
  common feed paths on it, as the platform's parser builds them.
\<close>

definition blog_url :: "string \<Rightarrow> url" where
  "blog_url path =
     \<lparr>url_protocol = ''https:'', url_hostname = ''blog.example.com'', url_pathname = path,
      url_origin = ''https://blog.example.com'', url_href = ''https://blog.example.com'' @ path\<rparr>"

definition blog_table :: "(string \<times> url) list" where
  "blog_table =
     (''https://blog.example.com'', blog_url ''/'') #
     map (\<lambda>path. (''https://blog.example.com'' @ path, blog_url path)) (''/'' # COMMON_FEED_PATHS)"

definition feed_response :: http_response where
  "feed_response =
     \<lparr>r_status = 200, r_statusText = ''OK'', r_content_type = Some ''application/rss+xml'',
      r_body = Inr ''<rss></rss>''\<rparr>"

definition not_found :: http_response where
  "not_found =
     \<lparr>r_status = 404, r_statusText = ''Not Found'', r_content_type = Some ''text/html'',
      r_body = Inr []\<rparr>"

definition some_error :: js_error where
  "some_error = \<lparr>err_is_Error = True, err_name = ''Error'', err_message = ''failed''\<rparr>"

text \<open>A site on which only \<open>/feed\<close> answers as a feed, and one on which every path does.\<close>

definition one_feed_env :: env where
  "one_feed_env =
     \<lparr>env_API_KEY = None, env_MAX_HTML_SIZE_MB = 5, env_new_URL = table_URL blog_table,
      env_resolve_URL = (\<lambda>u b. None),
      env_fetch = (\<lambda>kind u. if u = ''https://blog.example.com/feed''
                              then Responds feed_response else Responds not_found),
      env_parseURL = (\<lambda>u. None), env_parseHTML = (\<lambda>h. Inl some_error),
      env_JSON_parse = (\<lambda>s. None)\<rparr>"

definition all_feeds_env :: env where
  "all_feeds_env =
     \<lparr>env_API_KEY = None, env_MAX_HTML_SIZE_MB = 5, env_new_URL = table_URL blog_table,
      env_resolve_URL = (\<lambda>u b. None),
      env_fetch = (\<lambda>kind u. Responds feed_response),
      env_parseURL = (\<lambda>u. None), env_parseHTML = (\<lambda>h. Inl some_error),
      env_JSON_parse = (\<lambda>s. None)\<rparr>"

subsection \<open>The handler of POST /discover\<close>

record DiscoverSuccessResponse =
  ds_input_type :: input_type
  ds_normalized_url :: string
  ds_feeds :: "FeedInfo list"
  ds_recommended_feed :: "string option"
  ds_metadata :: "FeedMetadata option"
  ds_images :: Images
  ds_content_analysis :: "content_analysis option"
  ds_recent_posts :: "RecentPost list option"
  ds_message :: "string option"

record PlatformSuggestion =
  ps_platform :: string
  ps_url :: string
  ps_label :: string

text \<open>
  The bodies the handler sends: none (the answer to OPTIONS),
  \<open>{success: false, error: {code: 'METHOD_NOT_ALLOWED', ...}}\<close>,
  \<open>{ok: false, error}\<close> for a request that is not authenticated,
  \<open>{success: false, error: {code, message, details?}}\<close>,
  the platform hint \<open>{success: true, platform_hint: true, input, suggestions}\<close> and the
  result of a discovery, \<open>{success: true, ...}\<close>.
\<close>

datatype response_body =
  NoBody
  | MethodNotAllowedBody
  | UnauthorizedBody "string option"
  | ErrorBody error_code string "string option"
  | PlatformHintBody string "PlatformSuggestion list"
  | SuccessBody DiscoverSuccessResponse

record response =
  res_status :: nat
  res_body :: response_body


record request =
  req_method :: string
  req_api_key :: "header_value option"
  req_body :: js_value

text \<open>
  What a call of the handler ends in: a response, or an exception that no \<open>catch\<close> of
  the handler meets.
\<close>

datatype handler_result = Responded response | Uncaught js_exception

text \<open>
  \<open>body.url\<close>: reading a property of \<open>undefined\<close> or \<open>null\<close> throws; a value that is
  not an object has no property \<open>url\<close>.
\<close>

definition get_property :: "js_value \<Rightarrow> string \<Rightarrow> js_exception + js_value" where
  "get_property v k =
     (case v of
        JUndefined \<Rightarrow> Inl TypeError
      | JNull \<Rightarrow> Inl TypeError
      | JObject kvs \<Rightarrow> Inr (case map_of kvs k of None \<Rightarrow> JUndefined | Some x \<Rightarrow> x)
      | _ \<Rightarrow> Inr JUndefined)"

text \<open>The \<open>catch\<close> around the read of the homepage.\<close>

definition fetch_error_response :: "js_error \<Rightarrow> response" where
  "fetch_error_response err =
     (let isTimeout = (err_is_Error err \<and>
            (err_name err = ''AbortError'' \<or> js_includes (err_message err) ''timeout''))
      in \<lparr>res_status = 200,
          res_body = ErrorBody (if isTimeout then TIMEOUT else FETCH_FAILED)
            (if isTimeout then ''Request timed out''
             else if err_is_Error err then err_message err
             else ''Network error during fetch'') None\<rparr>)"

text \<open>The outer \<open>catch\<close> of the handler.\<close>

definition discovery_failed_response :: "js_error \<Rightarrow> response" where
  "discovery_failed_response err =
     \<lparr>res_status = 200,
      res_body = ErrorBody DISCOVERY_FAILED ''Could not complete feed discovery''
        (if err_is_Error err then Some (err_message err) else None)\<rparr>"

definition no_images :: Images where
  "no_images = \<lparr>site_icon = None, og_image = None\<rparr>"

text \<open>
  The search for images on the page that a feed names as its link, with its own
  \<open>try\<close> and \<open>catch\<close>. The link is read from the feed and is fetched as it is.
\<close>

definition feed_images :: "env \<Rightarrow> FeedMetadata \<Rightarrow> Images \<times> trace" where
  "feed_images e metadata =
     (if md_link metadata \<noteq> [] then
        (case env_fetch e ImageDiscovery (md_link metadata) of
           Throws _ \<Rightarrow> no_images
         | Responds homeResponse \<Rightarrow>
             if ok homeResponse then
               (case r_body homeResponse of
                  Inl _ \<Rightarrow> no_images
                | Inr html \<Rightarrow>
                    (case env_parseHTML e html of
                       Inl _ \<Rightarrow> no_images
                     | Inr document \<Rightarrow>
                         \<lparr>site_icon = extractFavicon e document (md_link metadata),
                          og_image = extractOgImage e document (md_link metadata)\<rparr>))
             else no_images,
         [(ImageDiscovery, md_link metadata)])
      else (no_images, []))"

text \<open>The branch of an input that is a feed and passed \<open>validateFeedUrl\<close>.\<close>

definition feed_direct :: "env \<Rightarrow> string \<Rightarrow> response \<times> trace" where
  "feed_direct e normalizedUrlString =
     (case parseFeed e normalizedUrlString of
        (None, tr1) \<Rightarrow>
          (\<lparr>res_status = 200,
            res_body = SuccessBody
              \<lparr>ds_input_type = Feed, ds_normalized_url = normalizedUrlString,
               ds_feeds = [\<lparr>fi_url = normalizedUrlString, fi_title = None, fi_type = Unknown\<rparr>],
               ds_recommended_feed = Some normalizedUrlString, ds_metadata = None,
               ds_images = no_images, ds_content_analysis = None, ds_recent_posts = None,
               ds_message = None\<rparr>\<rparr>, tr1)
      | (Some (metadata, posts, contentAnalysis), tr1) \<Rightarrow>
          (case feed_images e metadata of
             (images, tr2) \<Rightarrow>
               (\<lparr>res_status = 200,
                 res_body = SuccessBody
                   \<lparr>ds_input_type = Feed, ds_normalized_url = normalizedUrlString,
                    ds_feeds = [\<lparr>fi_url = normalizedUrlString,
                                fi_title = Some (md_title metadata), fi_type = Unknown\<rparr>],
                    ds_recommended_feed = Some normalizedUrlString,
                    ds_metadata = Some metadata, ds_images = images,
                    ds_content_analysis = Some contentAnalysis,
                    ds_recent_posts = Some posts, ds_message = None\<rparr>\<rparr>, tr1 @ tr2)))"

text \<open>
  The end of the homepage branch, from the feeds found: the first one is read, and the
  result of the discovery is sent. The URL of that feed is fetched as it is.
\<close>

definition finish_discovery ::
    "env \<Rightarrow> input_type \<Rightarrow> string \<Rightarrow> Images \<Rightarrow> FeedInfo list \<Rightarrow> response \<times> trace" where
  "finish_discovery e inputType homepageUrl images feeds =
     (case feeds of
        [] \<Rightarrow>
          (\<lparr>res_status = 200,
            res_body = SuccessBody
              \<lparr>ds_input_type = inputType, ds_normalized_url = homepageUrl, ds_feeds = [],
               ds_recommended_feed = None, ds_metadata = None, ds_images = images,
               ds_content_analysis = None, ds_recent_posts = None,
               ds_message = Some ''No RSS or Atom feeds found for this URL''\<rparr>\<rparr>, [])
      | f # fs \<Rightarrow>
          (case parseFeed e (fi_url f) of
             (None, tr) \<Rightarrow>
               (\<lparr>res_status = 200,
                 res_body = SuccessBody
                   \<lparr>ds_input_type = inputType, ds_normalized_url = homepageUrl,
                    ds_feeds = f # fs, ds_recommended_feed = Some (fi_url f),
                    ds_metadata = None, ds_images = images, ds_content_analysis = None,
                    ds_recent_posts = None, ds_message = None\<rparr>\<rparr>, tr)
           | (Some (metadata, posts, contentAnalysis), tr) \<Rightarrow>
               (\<lparr>res_status = 200,
                 res_body = SuccessBody
                   \<lparr>ds_input_type = inputType, ds_normalized_url = homepageUrl,
                    ds_feeds =
                      (if or_null (fi_title f) = None
                       then f\<lparr>fi_title := Some (md_title metadata)\<rparr> else f) # fs,
                    ds_recommended_feed = Some (fi_url f),
                    ds_metadata = Some metadata, ds_images = images,
                    ds_content_analysis = Some contentAnalysis,
                    ds_recent_posts = Some posts, ds_message = None\<rparr>\<rparr>, tr)))"

text \<open>
  The homepage branch: the page is fetched and parsed, feeds are taken from its links
  and, when it declares none, from the probe of the common paths at its origin. An
  exception of \<open>parseHTML\<close> or of \<open>new URL(homepageUrl)\<close> reaches the outer \<open>catch\<close>.
\<close>

definition homepage_path :: "env \<Rightarrow> input_type \<Rightarrow> string \<Rightarrow> response \<times> trace" where
  "homepage_path e inputType homepageUrl =
     (case env_fetch e HomepageFetch homepageUrl of
        Throws err \<Rightarrow> (fetch_error_response err, [(HomepageFetch, homepageUrl)])
      | Responds r \<Rightarrow>
          if \<not> ok r then
            (\<lparr>res_status = 200,
              res_body = ErrorBody FETCH_FAILED
                (''HTTP '' @ dec (r_status r) @ '': '' @ r_statusText r) None\<rparr>,
             [(HomepageFetch, homepageUrl)])
          else
            (case r_body r of
               Inl err \<Rightarrow> (fetch_error_response err, [(HomepageFetch, homepageUrl)])
             | Inr bytes \<Rightarrow>
                 if length bytes > MAX_HTML_SIZE e then
                   (\<lparr>res_status = 200,
                     res_body = ErrorBody CONTENT_TOO_LARGE
                       (''HTML exceeds maximum size of '' @ dec (env_MAX_HTML_SIZE_MB e) @ ''MB'')
                       None\<rparr>,
                    [(HomepageFetch, homepageUrl)])
                 else
                   (case env_parseHTML e bytes of
                      Inl err \<Rightarrow>
                        (discovery_failed_response err, [(HomepageFetch, homepageUrl)])
                    | Inr doc \<Rightarrow>
                        (let images = \<lparr>site_icon = extractFavicon e doc homepageUrl,
                                       og_image = extractOgImage e doc homepageUrl\<rparr>;
                             feeds = discoverFeedsFromHtml e doc homepageUrl
                         in if length feeds = 0 then
                              (case env_new_URL e homepageUrl of
                                 None \<Rightarrow>
                                   (discovery_failed_response
                                      \<lparr>err_is_Error = True, err_name = ''TypeError'',
                                       err_message = ''Invalid URL''\<rparr>,
                                    [(HomepageFetch, homepageUrl)])
                               | Some u \<Rightarrow>
                                   (case probeFeedPaths e (url_origin u) of
                                      (probed, tr2) \<Rightarrow>
                                        (case finish_discovery e inputType homepageUrl images probed of
                                           (res, tr3) \<Rightarrow>
                                             (res, (HomepageFetch, homepageUrl) # tr2 @ tr3))))
                            else
                              (case finish_discovery e inputType homepageUrl images feeds of
                                 (res, tr3) \<Rightarrow> (res, (HomepageFetch, homepageUrl) # tr3))))))"

text \<open>
  The handler from the trimmed \<open>url\<close> field on: a user name is answered with the
  platform hint; any other input is normalised and validated, then classified.
\<close>

definition discover :: "env \<Rightarrow> string \<Rightarrow> response \<times> trace" where
  "discover e input =
     (if isUsernameInput input then
        (let username = strip_at input in
         (\<lparr>res_status = 200,
           res_body = PlatformHintBody username
             [\<lparr>ps_platform = ''substack'', ps_url = ''https://'' @ username @ ''.substack.com'',
               ps_label = ''Substack''\<rparr>,
              \<lparr>ps_platform = ''medium'', ps_url = ''https://medium.com/@'' @ username,
               ps_label = ''Medium''\<rparr>,
              \<lparr>ps_platform = ''ghost'', ps_url = ''https://'' @ username @ ''.ghost.io'',
               ps_label = ''Ghost''\<rparr>]\<rparr>, []))
      else
        (let normalizedUrlString = normalizeUrl input;
             urlValidation = validateUrl (env_new_URL e) normalizedUrlString
         in if \<not> valid urlValidation then
              (\<lparr>res_status = 200,
                res_body = ErrorBody (fst (the (error urlValidation)))
                  (snd (the (error urlValidation))) None\<rparr>, [])
            else
              (let u = the (validated_url urlValidation);
                   inputType = detectInputType u;
                   homepageUrl = (if inputType = Article then extractHomepageUrl u
                                  else normalizedUrlString)
               in if inputType = Feed then
                    (case validateFeedUrl e normalizedUrlString of
                       (isValid, tr0) \<Rightarrow>
                         if \<not> isValid then
                           (case homepage_path e Homepage (url_origin u) of
                              (res, tr) \<Rightarrow> (res, tr0 @ tr))
                         else
                           (case feed_direct e normalizedUrlString of
                              (res, tr) \<Rightarrow> (res, tr0 @ tr)))
                  else homepage_path e inputType homepageUrl)))"

text \<open>
  The handler. A request body that is a string is parsed as JSON; any other body is
  taken as it is.
\<close>

definition handler :: "env \<Rightarrow> request \<Rightarrow> handler_result \<times> trace" where
  "handler e req =
     (if req_method req = ''OPTIONS'' then
        (Responded \<lparr>res_status = 204, res_body = NoBody\<rparr>, [])
      else if req_method req \<noteq> ''POST'' then
        (Responded \<lparr>res_status = 405, res_body = MethodNotAllowedBody\<rparr>, [])
      else
        (case validateAuth (env_API_KEY e) (req_api_key req) of
           Inl ex \<Rightarrow> (Uncaught ex, [])
         | Inr auth \<Rightarrow>
             if \<not> authenticated auth then
               (Responded \<lparr>res_status = 401, res_body = UnauthorizedBody (auth_error auth)\<rparr>, [])
             else
               (case (case req_body req of
                        JString s \<Rightarrow> env_JSON_parse e s
                      | b \<Rightarrow> Some b) of
                  None \<Rightarrow>
                    (Responded \<lparr>res_status = 400,
                       res_body = ErrorBody INVALID_URL ''Invalid request body'' None\<rparr>, [])
                | Some body \<Rightarrow>
                    (case get_property body ''url'' of
                       Inl ex \<Rightarrow> (Uncaught ex, [])
                     | Inr (JString s) \<Rightarrow>
                         if s = [] then
                           (Responded \<lparr>res_status = 400,
                              res_body = ErrorBody INVALID_URL ''Missing required field: url'' None\<rparr>,
                            [])
                         else (case discover e (trim s) of (res, tr) \<Rightarrow> (Responded res, tr))
                     | Inr _ \<Rightarrow>
                         (Responded \<lparr>res_status = 400,
                            res_body = ErrorBody INVALID_URL ''Missing required field: url'' None\<rparr>,
                          [])))))"

subsection \<open>Responses, in the words of the specification\<close>

text \<open>
  The value the handler takes as the request body, \<open>None\<close> when the body is a string
  that \<open>JSON.parse\<close> rejects; and the \<open>url\<close> field of a body when it is a non-empty
  string.
\<close>

definition parsed_body :: "env \<Rightarrow> request \<Rightarrow> js_value option" where
  "parsed_body e req = (case req_body req of JString s \<Rightarrow> env_JSON_parse e s | b \<Rightarrow> Some b)"

definition url_field :: "js_value \<Rightarrow> string option" where
  "url_field b =
     (case b of
        JObject kvs \<Rightarrow>
          (case map_of kvs ''url'' of
             Some (JString u) \<Rightarrow> if u = [] then None else Some u
           | _ \<Rightarrow> None)
      | _ \<Rightarrow> None)"




subsection \<open>A request that reaches an address inside the network\<close>

text \<open>
  The site \<open>https://blog.example.com\<close> once more. Its homepage declares a feed at the
  address of a cloud metadata service; \<open>http://localhost/\<close> and that address are URLs
  that the parser accepts and the validator blocks.
\<close>

definition localhost_url :: url where
  "localhost_url =
     \<lparr>url_protocol = ''http:'', url_hostname = ''localhost'', url_pathname = ''/'',
      url_origin = ''http://localhost'', url_href = ''http://localhost/''\<rparr>"

definition metadata_url :: url where
  "metadata_url =
     \<lparr>url_protocol = ''http:'', url_hostname = ''169.254.169.254'',
      url_pathname = ''/latest/meta-data/'', url_origin = ''http://169.254.169.254'',
      url_href = ''http://169.254.169.254/latest/meta-data/''\<rparr>"

definition ssrf_table :: "(string \<times> url) list" where
  "ssrf_table =
     [(''http://localhost/'', localhost_url),
      (''http://169.254.169.254/latest/meta-data/'', metadata_url),
      (''https://blog.example.com'', blog_url ''/'')]"

definition page_response :: http_response where
  "page_response =
     \<lparr>r_status = 200, r_statusText = ''OK'', r_content_type = Some ''text/html'',
      r_body = Inr ''<html></html>''\<rparr>"

definition link_document :: html_document where
  "link_document =
     \<lparr>querySelectorAll = (\<lambda>sel.
        if sel = LinkAlternate then
          [[(''rel'', ''alternate''), (''type'', ''application/rss+xml''),
            (''href'', ''http://169.254.169.254/latest/meta-data/'')]]
        else [])\<rparr>"

definition ssrf_env :: env where
  "ssrf_env =
     \<lparr>env_API_KEY = None, env_MAX_HTML_SIZE_MB = 5, env_new_URL = table_URL ssrf_table,
      env_resolve_URL = (\<lambda>u b. None),
      env_fetch = (\<lambda>kind u. if kind = HomepageFetch \<and> u = ''https://blog.example.com''
                              then Responds page_response else Throws some_error),
      env_parseURL = (\<lambda>u. None), env_parseHTML = (\<lambda>h. Inr link_document),
      env_JSON_parse = (\<lambda>s. None)\<rparr>"

definition discover_request :: "string \<Rightarrow> request" where
  "discover_request u =
     \<lparr>req_method = ''POST'', req_api_key = None, req_body = JObject [(''url'', JString u)]\<rparr>"

section \<open>HTML sanitizer (src/lib/sanitize.ts)\<close>
























subsection \<open>The sanitized fragment, in the words of the specification\<close>




subsection \<open>Resolvers for the examples\<close>





subsection \<open>Stable URL resolution\<close>






section \<open>Theorems\<close>

subsection \<open>Authentication\<close>

lemma ucast_code_unit_inj: "((ucast (x:: 16 word) :: 32 word) = ucast (y:: 16 word)) = (x = y)"
proof
  assume "(ucast x :: 32 word) = ucast y"
  then have "unat (ucast x :: 32 word) = unat (ucast y :: 32 word)" by simp
  moreover have "\<And>w :: 16 word. take_bit 32 (unat w) = unat w"
  proof -
    fix w :: "16 word"
    have "unat w < 2 ^ 16" using unsigned_less [of w] by simp
    then have "unat w < 2 ^ 32" by simp
    then show "take_bit 32 (unat w) = unat w" by (rule take_bit_nat_eq_self)
  qed
  ultimately have "unat x = unat y"
    by (simp add: unsigned_ucast_eq) 
  then show "x = y" by (simp only: word_unat_eq_iff)
qed simp

lemma xor_fold_zero:
  "(fold (\<lambda>i r. r OR (ucast ((a :: js_string) ! i) XOR ucast ((b :: js_string) ! i))) [0..<n] (acc :: 32 word) = 0)
     = (acc = 0 \<and> (\<forall>i<n. a ! i = b ! i))"
proof (induction n arbitrary: acc)
  case 0
  then show ?case by simp
next
  case (Suc n)
  have inj: "\<And>x y :: 16 word. ((ucast x :: 32 word) XOR ucast y = 0) = (x = y)"
  proof -
    fix x y :: "16 word"
    have "((ucast x :: 32 word) XOR ucast y = 0) = ((ucast x :: 32 word) = ucast y)"
      by (auto simp: bit_eq_iff bit_xor_iff)
    then show "((ucast x :: 32 word) XOR ucast y = 0) = (x = y)"
      by (simp only: ucast_code_unit_inj)
  qed
  show ?case
    by (auto simp: Suc.IH or_eq_0_iff inj less_Suc_eq)
qed

lemma constantTimeCompare_eq: "constantTimeCompare a b = (a = b)"
proof (cases "length a = length b")
  case True
  have "(a = b) = (\<forall>i<length a. a ! i = b ! i)"
    using True list_eq_iff_nth_eq [of a b] by simp
  with True show ?thesis
    by (simp add: constantTimeCompare_def xor_fold_zero)
next
  case False
  then have "a \<noteq> b" by auto
  with False show ?thesis
    by (simp add: constantTimeCompare_def)
qed

text \<open>
  C10. Without a configured secret (\<open>BAB_API_KEY\<close> unset or empty) every request is
  authenticated, whatever its headers; with a secret configured, a request is
  authenticated exactly when the value of its \<open>x-api-key\<close> header equals the secret.
\<close>

theorem validateAuth_spec:
  "(validateAuth None h = Inr \<lparr>authenticated = True, auth_error = None\<rparr>) \<and>
   (validateAuth (Some []) h = Inr \<lparr>authenticated = True, auth_error = None\<rparr>) \<and>
   (is_authenticated (validateAuth (Some (c # cs)) h) = (presented_key h = Some (c # cs)))"
  by (auto simp: validateAuth_def is_authenticated_def presented_key_def constantTimeCompare_eq
      split: option.splits header_value.splits list.splits)


theorem validateAuth_spec_witness:
  "is_authenticated (validateAuth (Some [115, 51]) (Some (HeaderString [115, 51]))) \<and>
   \<not> is_authenticated (validateAuth (Some [115, 51]) (Some (HeaderString [115]))) \<and>
   \<not> is_authenticated (validateAuth (Some [115, 51]) None)"
  using validateAuth_spec [of "Some (HeaderString [115, 51])" 115 "[51]"]
    validateAuth_spec [of "Some (HeaderString [115])" 115 "[51]"]
    validateAuth_spec [of None 115 "[51]"]
  by (simp add: presented_key_def)

subsection \<open>Decimal numerals\<close>

lemma dec_numeral:
  "dec (numeral k) = (if (numeral k :: nat) < 10 then [digits ! numeral k]
     else dec (numeral k div 10) @ [digits ! (numeral k mod 10)])"
  by (rule dec.simps)

lemma dec_0: "dec 0 = ''0''" by (simp add: dec.simps digits_def)
lemma dec_1: "dec 1 = ''1''" by (simp add: dec.simps digits_def)
lemma dec_Suc0: "dec (Suc 0) = ''1''" by (simp add: dec.simps digits_def)

lemmas dec_eval = dec_numeral dec_0 dec_1 dec_Suc0 digits_def

lemma digit_nth: "k < 10 \<Longrightarrow> digits ! k \<in> set digits"
proof -
  assume "k < 10"
  moreover have "length digits = 10" by (simp add: digits_def)
  ultimately show ?thesis by (simp only: nth_mem)
qed

lemma digit_nth_inj: "j < 10 \<Longrightarrow> k < 10 \<Longrightarrow> (digits ! j = digits ! k) = (j = k)"
proof -
  have "distinct digits" "length digits = 10" by (simp_all add: digits_def)
  then show "j < 10 \<Longrightarrow> k < 10 \<Longrightarrow> (digits ! j = digits ! k) = (j = k)"
    by (simp add: nth_eq_iff_index_eq)
qed

lemma dec_ne: "dec n \<noteq> []"
  by (subst dec.simps) simp

lemma dec_digits: "set (dec n) \<subseteq> set digits"
proof (induction n rule: dec.induct)
  case (1 n)
  show ?case
  proof (cases "n < 10")
    case True
    then show ?thesis by (subst dec.simps) (simp add: digit_nth)
  next
    case False
    with 1 show ?thesis by (subst dec.simps) (simp add: digit_nth)
  qed
qed

lemma dec_inj: "dec m = dec n \<Longrightarrow> m = n"
proof (induction m arbitrary: n rule: dec.induct)
  case (1 m)
  show ?case
  proof (cases "m < 10")
    case m: True
    show ?thesis
    proof (cases "n < 10")
      case True
      with m 1(2) show ?thesis
        by (simp add: dec.simps [of m] dec.simps [of n] digit_nth_inj)
    next
      case False
      with m 1(2) dec_ne [of "n div 10"] show ?thesis
        by (simp add: dec.simps [of m] dec.simps [of n])
    qed
  next
    case m: False
    show ?thesis
    proof (cases "n < 10")
      case True
      with m 1(2) dec_ne [of "m div 10"] show ?thesis
        by (simp add: dec.simps [of m] dec.simps [of n])
    next
      case False
      with m 1(2) have "dec (m div 10) = dec (n div 10)" "digits ! (m mod 10) = digits ! (n mod 10)"
        by (simp_all add: dec.simps [of m] dec.simps [of n])
      with 1(1) [OF m] have "m div 10 = n div 10" "m mod 10 = n mod 10"
        by (simp_all add: digit_nth_inj)
      then show ?thesis by (metis div_mult_mod_eq)
    qed
  qed
qed

lemma dec_eq_iff: "(dec m = dec n) = (m = n)"
  using dec_inj by auto

lemma dec_mem_map: "(dec n \<in> set (map dec ks)) = (n \<in> set ks)"
  using dec_inj by auto

lemma length_dec: "n < 1000 \<Longrightarrow> length (dec n) \<le> 3"
  by (simp add: dec.simps [of n] dec.simps [of "n div 10"] dec.simps [of "n div 10 div 10"])

lemma dot_not_digit: "CHR ''.'' \<notin> set digits"
  by (simp add: digits_def)

lemma dec_no_dot: "CHR ''.'' \<notin> set (dec n)"
  using dec_digits [of n] dot_not_digit by auto

subsection \<open>Matching and splitting a dotted numeral\<close>

lemma match_digit_group:
  "\<forall>cls \<in> set clss. set cls \<subseteq> set digits \<Longrightarrow> set es \<subseteq> set digits \<Longrightarrow>
   match_seq (clss @ ''.'' # pat) (es @ CHR ''.'' # rest)
     = (es \<in> set (product_lists clss) \<and> match_seq pat rest)"
proof (induction clss arbitrary: es)
  case Nil
  then show ?case using dot_not_digit by (cases es) auto
next
  case (Cons cls clss)
  show ?case
  proof (cases es)
    case Nil
    with Cons.prems dot_not_digit show ?thesis by auto
  next
    case (Cons e es')
    with Cons.prems Cons.IH [of es'] show ?thesis by auto
  qed
qed

lemma split_char_last: "sep \<notin> set xs \<Longrightarrow> split_char sep xs = [xs]"
  by (induction xs) auto

lemma split_char_append: "sep \<notin> set xs \<Longrightarrow> split_char sep (xs @ sep # ys) = xs # split_char sep ys"
  by (induction xs) auto

lemma split_ipv4_literal: "split_char CHR ''.'' (ipv4_literal a b c d) = [dec a, dec b, dec c, dec d]"
  by (simp add: ipv4_literal_def split_char_append split_char_last dec_no_dot)

lemma looksLikeIP_literal:
  "a < 256 \<Longrightarrow> b < 256 \<Longrightarrow> c < 256 \<Longrightarrow> d < 256 \<Longrightarrow> looksLikeIP (ipv4_literal a b c d)"
proof -
  assume "a < 256" "b < 256" "c < 256" "d < 256"
  then have "length (dec a) \<le> 3" "length (dec b) \<le> 3" "length (dec c) \<le> 3" "length (dec d) \<le> 3"
    by (simp_all add: length_dec)
  moreover have "\<And>n. 1 \<le> length (dec n)" using dec_ne by (simp add: Suc_le_eq)
  moreover have "\<And>n. list_all is_digit (dec n)"
    using dec_digits by (auto simp: list_all_iff is_digit_def)
  ultimately show ?thesis
    by (simp add: looksLikeIP_def split_ipv4_literal)
qed


lemma match_first:
  "\<forall>cls \<in> set clss. set cls \<subseteq> set digits \<Longrightarrow>
   match_seq (clss @ [''.'']) (ipv4_literal a b c d) = (dec a \<in> set (product_lists clss))"
  using match_digit_group [of clss "dec a" "[]" "dec b @ ''.'' @ dec c @ ''.'' @ dec d"]
  by (simp add: ipv4_literal_def dec_digits)

lemma match_first_second:
  "\<forall>cls \<in> set clss1. set cls \<subseteq> set digits \<Longrightarrow>
   \<forall>cls \<in> set clss2. set cls \<subseteq> set digits \<Longrightarrow>
   match_seq (clss1 @ ''.'' # clss2 @ [''.'']) (ipv4_literal a b c d)
     = (dec a \<in> set (product_lists clss1) \<and> dec b \<in> set (product_lists clss2))"
  using match_digit_group [of clss1 "dec a" "clss2 @ [''.'']" "dec b @ ''.'' @ dec c @ ''.'' @ dec d"]
    match_digit_group [of clss2 "dec b" "[]" "dec c @ ''.'' @ dec d"]
  by (simp add: ipv4_literal_def dec_digits)

lemma isPrivateIPv4_literal: "isPrivateIPv4 (ipv4_literal a b c d) = private_ipv4 a b"
proof -
  let ?L = "ipv4_literal a b c d"
  have p10: "product_lists [''1'', ''0''] = map dec [10]"
    and p172: "product_lists [''1'', ''7'', ''2''] = map dec [172]"
    and p192: "product_lists [''1'', ''9'', ''2''] = map dec [192]"
    and p168: "product_lists [''1'', ''6'', ''8''] = map dec [168]"
    and p127: "product_lists [''1'', ''2'', ''7''] = map dec [127]"
    and p169: "product_lists [''1'', ''6'', ''9''] = map dec [169]"
    and p254: "product_lists [''2'', ''5'', ''4''] = map dec [254]"
    and p0: "product_lists [''0''] = map dec [0]"
    and p1x: "product_lists [''1'', ''6789''] = map dec [16, 17, 18, 19]"
    and p2x: "product_lists [''2'', ''0123456789''] = map dec [20, 21, 22, 23, 24, 25, 26, 27, 28, 29]"
    and p3x: "product_lists [''3'', ''01''] = map dec [30, 31]"
    by (simp_all add: dec_eval)
  have m1: "match_seq [''1'', ''0'', ''.''] ?L = (a = 10)"
    using match_first [of "[''1'', ''0'']" a b c d]
    by (simp add: digits_def p10 dec_mem_map dec_eq_iff del: product_lists.simps)
  have m2: "match_seq [''1'', ''7'', ''2'', ''.'', ''1'', ''6789'', ''.''] ?L = (a = 172 \<and> b \<in> set [16, 17, 18, 19])"
    using match_first_second [of "[''1'', ''7'', ''2'']" "[''1'', ''6789'']" a b c d]
    by (simp add: digits_def p172 p1x dec_mem_map dec_eq_iff del: product_lists.simps)
  have m3: "match_seq [''1'', ''7'', ''2'', ''.'', ''2'', ''0123456789'', ''.''] ?L
      = (a = 172 \<and> b \<in> set [20, 21, 22, 23, 24, 25, 26, 27, 28, 29])"
    using match_first_second [of "[''1'', ''7'', ''2'']" "[''2'', ''0123456789'']" a b c d]
    by (simp add: digits_def p172 p2x dec_mem_map dec_eq_iff del: product_lists.simps)
  have m4: "match_seq [''1'', ''7'', ''2'', ''.'', ''3'', ''01'', ''.''] ?L = (a = 172 \<and> b \<in> set [30, 31])"
    using match_first_second [of "[''1'', ''7'', ''2'']" "[''3'', ''01'']" a b c d]
    by (simp add: digits_def p172 p3x dec_mem_map dec_eq_iff del: product_lists.simps)
  have m5: "match_seq [''1'', ''9'', ''2'', ''.'', ''1'', ''6'', ''8'', ''.''] ?L = (a = 192 \<and> b = 168)"
    using match_first_second [of "[''1'', ''9'', ''2'']" "[''1'', ''6'', ''8'']" a b c d]
    by (simp add: digits_def p192 p168 dec_mem_map dec_eq_iff del: product_lists.simps)
  have m6: "match_seq [''1'', ''2'', ''7'', ''.''] ?L = (a = 127)"
    using match_first [of "[''1'', ''2'', ''7'']" a b c d]
    by (simp add: digits_def p127 dec_mem_map dec_eq_iff del: product_lists.simps)
  have m7: "match_seq [''1'', ''6'', ''9'', ''.'', ''2'', ''5'', ''4'', ''.''] ?L = (a = 169 \<and> b = 254)"
    using match_first_second [of "[''1'', ''6'', ''9'']" "[''2'', ''5'', ''4'']" a b c d]
    by (simp add: digits_def p169 p254 dec_mem_map dec_eq_iff del: product_lists.simps)
  have m8: "match_seq [''0'', ''.''] ?L = (a = 0)"
    using match_first [of "[''0'']" a b c d]
    by (simp add: digits_def p0 dec_mem_map dec_eq_iff del: product_lists.simps)
  have range: "(b \<in> set [16, 17, 18, 19] \<or> b \<in> set [20, 21, 22, 23, 24, 25, 26, 27, 28, 29]
      \<or> b \<in> set [30, 31]) = (16 \<le> b \<and> b \<le> 31)"
    by (simp del: One_nat_def) arith
  have "isPrivateIPv4 ?L =
     (a = 10 \<or> (a = 172 \<and> (b \<in> set [16, 17, 18, 19] \<or> b \<in> set [20, 21, 22, 23, 24, 25, 26, 27, 28, 29]
      \<or> b \<in> set [30, 31])) \<or> (a = 192 \<and> b = 168) \<or> a = 127 \<or> (a = 169 \<and> b = 254) \<or> a = 0)"
    unfolding isPrivateIPv4_def PRIVATE_IPV4_RANGES_def lit_def digits_def
    by (simp add: m1 m2 m3 m4 m5 m6 m7 m8 del: set_simps One_nat_def) blast
  then show ?thesis
    by (simp only: range private_ipv4_def)
qed


subsection \<open>The validator on IPv4 literals\<close>

lemma literal_first: "\<exists>h t. ipv4_literal a b c d = h # t \<and> h \<in> set digits"
proof -
  obtain h t where "dec a = h # t" using dec_ne [of a] by (cases "dec a") auto
  moreover from this have "h \<in> set digits" using dec_digits [of a] by auto
  ultimately show ?thesis by (simp add: ipv4_literal_def)
qed

lemma literal_last: "\<exists>t l. ipv4_literal a b c d = t @ [l] \<and> l \<in> set digits"
proof -
  obtain t l where "dec d = t @ [l]" using dec_ne [of d] by (cases "dec d" rule: rev_cases) auto
  moreover from this have "l \<in> set digits" using dec_digits [of d] by auto
  ultimately have "ipv4_literal a b c d = (dec a @ ''.'' @ dec b @ ''.'' @ dec c @ ''.'' @ t) @ [l] \<and> l \<in> set digits"
    by (simp add: ipv4_literal_def)
  then show ?thesis by blast
qed

lemma to_lower_char_digit: "ch \<in> set digits \<union> {CHR ''.''} \<Longrightarrow> to_lower_char ch = ch"
proof -
  have "list_all (\<lambda>ch. to_lower_char ch = ch) (digits @ ''.'')"
    by (simp add: digits_def to_lower_char_def)
  then show "ch \<in> set digits \<union> {CHR ''.''} \<Longrightarrow> to_lower_char ch = ch"
    by (simp only: list_all_iff set_append set_simps)
qed

lemma toLowerCase_literal: "toLowerCase (ipv4_literal a b c d) = ipv4_literal a b c d"
proof -
  have "set (ipv4_literal a b c d) \<subseteq> set digits \<union> {CHR ''.''}"
    using dec_digits by (auto simp: ipv4_literal_def)
  then show ?thesis
    by (simp add: toLowerCase_def map_idI to_lower_char_digit subset_iff)
qed

lemma ipv4_literal_inj:
  "ipv4_literal a b c d = ipv4_literal a' b' c' d' \<Longrightarrow> a = a' \<and> b = b' \<and> c = c' \<and> d = d'"
proof -
  assume "ipv4_literal a b c d = ipv4_literal a' b' c' d'"
  then have "split_char CHR ''.'' (ipv4_literal a b c d) = split_char CHR ''.'' (ipv4_literal a' b' c' d')"
    by simp
  then show ?thesis by (simp add: split_ipv4_literal dec_eq_iff)
qed

lemma metadata_literal: "''169.254.169.254'' = ipv4_literal 169 254 169 254"
  by (simp add: ipv4_literal_def dec_eval)

lemma not_blocked_literal:
  assumes "\<not> private_ipv4 a b"
  shows "\<not> isBlockedHostname (ipv4_literal a b c d)"
proof -
  let ?L = "ipv4_literal a b c d"
  obtain h t where first: "?L = h # t" "h \<in> set digits" using literal_first by blast
  obtain t' l where last: "?L = t' @ [l]" "l \<in> set digits" using literal_last by blast
  have "?L \<noteq> ''169.254.169.254''"
  proof
    assume "?L = ''169.254.169.254''"
    then have "a = 169 \<and> b = 254" using ipv4_literal_inj [of a b c d 169 254 169 254]
      by (simp only: metadata_literal) 
    with assms show False by (simp add: private_ipv4_def)
  qed
  moreover from first have "?L \<noteq> ''localhost''" "?L \<noteq> ''metadata.google.internal''"
    "?L \<noteq> ''metadata.azure.com''" "?L \<noteq> ''[::1]''"
    by (auto simp: digits_def)
  ultimately have member: "\<not> List.member BLOCKED_HOSTNAMES ?L"
    by (simp add: BLOCKED_HOSTNAMES_def)
  have "\<not> suffix p ?L" if "p \<in> set BLOCKED_HOSTNAME_PATTERNS" for p
  proof
    assume "suffix p ?L"
    then obtain q where "t' @ [l] = q @ p" using last(1) by (auto simp: suffix_def)
    moreover from that obtain p' e where "p = p' @ [e]" "e \<notin> set digits"
      by (auto simp: BLOCKED_HOSTNAME_PATTERNS_def digits_def)
    ultimately show False using last(2) by auto
  qed
  then have "\<not> list_ex (\<lambda>p. suffix p ?L) BLOCKED_HOSTNAME_PATTERNS"
    by (simp only: list_ex_iff) blast
  with member show ?thesis
    by (simp add: isBlockedHostname_def toLowerCase_literal)
qed

lemma strip_brackets_literal: "strip_brackets (ipv4_literal a b c d) = ipv4_literal a b c d"
proof -
  let ?L = "ipv4_literal a b c d"
  obtain h t where first: "?L = h # t" "h \<in> set digits" using literal_first by blast
  obtain t' l where last: "?L = t' @ [l]" "l \<in> set digits" using literal_last by blast
  from first have "\<not> prefix ''['' ?L" by (auto simp: digits_def)
  moreover from last have "last ?L \<noteq> CHR '']''" by (auto simp: digits_def)
  ultimately show ?thesis by (simp add: strip_brackets_def)
qed

lemma not_ipv6_literal: "\<not> isPrivateIPv6 (ipv4_literal a b c d)"
proof -
  let ?L = "ipv4_literal a b c d"
  obtain h t where first: "?L = h # t" "h \<in> set digits" using literal_first by blast
  have "isPrivateIPv6 ?L =
      (?L = ''::1'' \<or> ?L = ''[::1]'' \<or> prefix ''fc'' ?L \<or> prefix ''fd'' ?L \<or> prefix ''fe80'' ?L)"
    by (simp add: isPrivateIPv6_def toLowerCase_literal Let_def)
  also have "\<dots> = False"
    unfolding first(1) using first(2) by (auto simp: digits_def)
  finally show ?thesis by simp
qed

text \<open>
  C3, as amended. For a URL with scheme http or https whose host is an IPv4 literal: in
  the ranges 10.0.0.0/8, 172.16.0.0/12, 192.168.0.0/16, 127.0.0.0/8, 169.254.0.0/16 and
  0.0.0.0/8 the validator answers invalid with code \<open>BLOCKED_URL\<close>; outside them it
  answers valid. For any other scheme the answer is invalid with code \<open>INVALID_URL\<close>,
  whatever the host.
\<close>

theorem validateUrl_ipv4:
  assumes "new_URL s = Some u"
    and "url_hostname u = ipv4_literal a b c d"
    and "a < 256" "b < 256" "c < 256" "d < 256"
  shows "(if url_protocol u = ''http:'' \<or> url_protocol u = ''https:''
          then if private_ipv4 a b
               then \<not> valid (validateUrl new_URL s) \<and>
                    error_code_of (validateUrl new_URL s) = Some BLOCKED_URL
               else validateUrl new_URL s = \<lparr>valid = True, error = None, validated_url = Some u\<rparr>
          else \<not> valid (validateUrl new_URL s) \<and>
               error_code_of (validateUrl new_URL s) = Some INVALID_URL)"
proof -
  let ?L = "ipv4_literal a b c d"
  have look: "looksLikeIP ?L" using assms(3-6) by (rule looksLikeIP_literal)
  have core: "validateUrl new_URL s =
      (if isBlockedHostname ?L
       then \<lparr>valid = False, error = Some (BLOCKED_URL, ''URL points to a blocked host''),
             validated_url = None\<rparr>
       else if private_ipv4 a b
       then \<lparr>valid = False, error = Some (BLOCKED_URL, ''URL points to a private IP address''),
             validated_url = None\<rparr>
       else \<lparr>valid = True, error = None, validated_url = Some u\<rparr>)"
    if "\<not> (url_protocol u \<noteq> ''http:'' \<and> url_protocol u \<noteq> ''https:'')"
    using that
    by (simp only: validateUrl_def assms(1) assms(2) option.case if_False toLowerCase_literal Let_def
        look if_True strip_brackets_literal isPrivateIPv4_literal not_ipv6_literal)
  show ?thesis
  proof (cases "url_protocol u = ''http:'' \<or> url_protocol u = ''https:''")
    case False
    with assms(1) show ?thesis
      by (simp add: validateUrl_def error_code_of_def)
  next
    case http: True
    then have c: "\<not> (url_protocol u \<noteq> ''http:'' \<and> url_protocol u \<noteq> ''https:'')" by blast
    show ?thesis
    proof (cases "private_ipv4 a b")
      case True
      with http show ?thesis
        by (simp add: core [OF c] error_code_of_def)
    next
      case False
      with http not_blocked_literal [OF False, of c d] show ?thesis
        by (simp add: core [OF c])
    qed
  qed
qed


theorem validateUrl_ipv4_witness:
  "error_code_of (validateUrl (table_URL [(''http://10.0.0.1/'', http_10_0_0_1)]) ''http://10.0.0.1/'')
     = Some BLOCKED_URL \<and>
   validateUrl (table_URL [(''https://8.8.8.8/'', https_8_8_8_8)]) ''https://8.8.8.8/''
     = \<lparr>valid = True, error = None, validated_url = Some https_8_8_8_8\<rparr>"
proof -
  have l1: "url_hostname http_10_0_0_1 = ipv4_literal 10 0 0 1"
    and l2: "url_hostname https_8_8_8_8 = ipv4_literal 8 8 8 8"
    by (simp_all add: http_10_0_0_1_def https_8_8_8_8_def ipv4_literal_def dec_eval)
  have t1: "table_URL [(''http://10.0.0.1/'', http_10_0_0_1)] ''http://10.0.0.1/'' = Some http_10_0_0_1"
    and t2: "table_URL [(''https://8.8.8.8/'', https_8_8_8_8)] ''https://8.8.8.8/'' = Some https_8_8_8_8"
    by (simp_all add: table_URL_def)
  have p1: "url_protocol http_10_0_0_1 = ''http:''" and p2: "url_protocol https_8_8_8_8 = ''https:''"
    by (simp_all add: http_10_0_0_1_def https_8_8_8_8_def)
  have r1: "private_ipv4 10 0" and r2: "\<not> private_ipv4 8 8"
    by (simp_all add: private_ipv4_def)
  from validateUrl_ipv4 [of "table_URL [(''http://10.0.0.1/'', http_10_0_0_1)]" "''http://10.0.0.1/''"
      http_10_0_0_1 10 0 0 1]
    validateUrl_ipv4 [of "table_URL [(''https://8.8.8.8/'', https_8_8_8_8)]" "''https://8.8.8.8/''"
      https_8_8_8_8 8 8 8 8]
  show ?thesis
    by (simp add: t1 t2 l1 l2 p1 p2 r1 r2)
qed

text \<open>
  C3 as stated speaks of every URL. The scheme is tested before the host: for
  \<open>ftp://10.0.0.1/\<close> the code is \<open>INVALID_URL\<close>, not \<open>BLOCKED_URL\<close>.
\<close>

theorem validateUrl_ftp_private_counterexample:
  "url_hostname ftp_10_0_0_1 = ipv4_literal 10 0 0 1 \<and> private_ipv4 10 0 \<and>
   table_URL [(''ftp://10.0.0.1/'', ftp_10_0_0_1)] ''ftp://10.0.0.1/'' = Some ftp_10_0_0_1 \<and>
   error_code_of (validateUrl (table_URL [(''ftp://10.0.0.1/'', ftp_10_0_0_1)]) ''ftp://10.0.0.1/'')
     \<noteq> Some BLOCKED_URL"
  by (simp add: ftp_10_0_0_1_def ipv4_literal_def dec_eval private_ipv4_def table_URL_def
      validateUrl_def error_code_of_def)

subsection \<open>The validator on IPv6 literals\<close>

text \<open>
  What the validator does block among the IPv6 literals: the loopback address and every
  address whose text starts with \<open>fc\<close>, \<open>fd\<close> or \<open>fe80\<close>.
\<close>

lemma validateUrl_ipv6_blocked:
  assumes "new_URL s = Some u"
    and "url_protocol u = ''http:'' \<or> url_protocol u = ''https:''"
    and "url_hostname u = ''['' @ addr @ '']''"
    and "toLowerCase addr = ''::1'' \<or> prefix ''fc'' (toLowerCase addr)
         \<or> prefix ''fd'' (toLowerCase addr) \<or> prefix ''fe80'' (toLowerCase addr)"
  shows "\<not> valid (validateUrl new_URL s) \<and> error_code_of (validateUrl new_URL s) = Some BLOCKED_URL"
proof -
  let ?h = "''['' @ toLowerCase addr @ '']''"
  have lower: "toLowerCase (url_hostname u) = ?h"
    by (simp add: assms(3) toLowerCase_def to_lower_char_def)
  have look: "looksLikeIP ?h" by (simp add: looksLikeIP_def)
  have strip: "strip_brackets ?h = toLowerCase addr" by (simp add: strip_brackets_def)
  have twice: "toLowerCase (toLowerCase addr) = toLowerCase addr"
  proof -
    have "to_lower_char (to_lower_char ch) = to_lower_char ch" for ch
      by (simp add: to_lower_char_def)
    then show ?thesis by (simp add: toLowerCase_def)
  qed
  have six: "isPrivateIPv6 (toLowerCase addr)"
    using assms(4) by (auto simp: isPrivateIPv6_def twice)
  have proto: "\<not> (url_protocol u \<noteq> ''http:'' \<and> url_protocol u \<noteq> ''https:'')"
    using assms(2) by blast
  from look strip six show ?thesis
    by (simp add: validateUrl_def assms(1) proto lower error_code_of_def Let_def)
qed

text \<open>
  C4. The link-local range \<open>fe80::/10\<close> holds every address whose first group is
  \<open>fe80\<close> to \<open>febf\<close>. The validator looks for the text \<open>fe80\<close> at the start of
  the address only: the link-local address \<open>fe90::1\<close> is found valid.
\<close>

theorem validateUrl_fe90_valid:
  "validateUrl (table_URL [(''http://[fe90::1]/'', http_fe90)]) ''http://[fe90::1]/''
     = \<lparr>valid = True, error = None, validated_url = Some http_fe90\<rparr>"
  by (simp add: validateUrl_def table_URL_def http_fe90_def isBlockedHostname_def
      BLOCKED_HOSTNAMES_def BLOCKED_HOSTNAME_PATTERNS_def toLowerCase_def to_lower_char_def
      suffix_to_prefix looksLikeIP_def strip_brackets_def isPrivateIPv4_def
      PRIVATE_IPV4_RANGES_def lit_def digits_def isPrivateIPv6_def Let_def)

subsection \<open>Content-depth analysis\<close>









subsection \<open>Input classification\<close>

lemma first_pattern_find:
  "first_pattern ps path orig =
     (case find (\<lambda>p. p path \<noteq> None) ps of
        None \<Rightarrow> orig
      | Some p \<Rightarrow> orig @ (if the (p path) = [] then ''/'' else the (p path)))"
  by (induction ps) (auto split: option.splits)

text \<open>
  C8, as amended. The input \<open>jdoe\<close> is a user name and is kept as \<open>jdoe\<close>;
  \<open>example.com/2024/01/my-post\<close> is no user name, is normalised to
  \<open>https://example.com/2024/01/my-post\<close> and is an article; the homepage derived from it
  is \<open>https://example.com/\<close>, the origin followed by \<open>/\<close> because the stripped prefix
  is empty. In general the first pattern that matches, in the order of the source, gives
  the prefix that follows the origin, and a path that matches no pattern gives the origin
  alone.
\<close>

theorem extractHomepageUrl_spec:
  "isUsernameInput ''jdoe'' \<and> strip_at ''jdoe'' = ''jdoe'' \<and>
   \<not> isUsernameInput ''example.com/2024/01/my-post'' \<and>
   normalizeUrl ''example.com/2024/01/my-post'' = url_href example_article \<and>
   detectInputType example_article = Article \<and>
   extractHomepageUrl example_article = ''https://example.com/'' \<and>
   extractHomepageUrl u =
     (case find (\<lambda>p. p (url_pathname u) \<noteq> None) articlePatterns of
        None \<Rightarrow> url_origin u
      | Some p \<Rightarrow> url_origin u @
          (if the (p (url_pathname u)) = [] then ''/'' else the (p (url_pathname u))))"
proof -
  have "isUsernameInput ''jdoe'' \<and> strip_at ''jdoe'' = ''jdoe''"
    by (simp add: isUsernameInput_def strip_at_def username_chars_def)
  moreover have "\<not> isUsernameInput ''example.com/2024/01/my-post''"
    by (simp add: isUsernameInput_def username_chars_def)
  moreover have "normalizeUrl ''example.com/2024/01/my-post'' = url_href example_article"
    by (simp add: normalizeUrl_def trim_def is_space_def example_article_def)
  moreover have "detectInputType example_article = Article"
    by (simp add: detectInputType_def example_article_def toLowerCase_def to_lower_char_def
        suffix_to_prefix digits_def)
  moreover have "extractHomepageUrl example_article = ''https://example.com/''"
    by (simp add: extractHomepageUrl_def example_article_def articlePatterns_def
        match_then_any_def digits_def is_line_terminator_def)
  ultimately show ?thesis
    by (simp only: extractHomepageUrl_def first_pattern_find simp_thms)
qed

text \<open>
  C8 as stated gives the derived homepage as \<open>https://example.com\<close>; the code appends
  \<open>/\<close> to the origin when the stripped prefix is empty.
\<close>

theorem extractHomepageUrl_counterexample:
  "extractHomepageUrl example_article \<noteq> ''https://example.com''"
  by (simp add: extractHomepageUrl_def example_article_def articlePatterns_def
      match_then_any_def digits_def is_line_terminator_def)

subsection \<open>Probing the common feed paths\<close>

lemma map_filter_map: "List.map_filter f (map g xs) = List.map_filter (\<lambda>x. f (g x)) xs"
  by (induction xs) (simp_all add: List.map_filter_simps split: option.splits)

lemma probe_loop_batches:
  "feeds = [] \<Longrightarrow> probe_loop e orig paths i feeds tr =
     (fst (probe_batches e orig (slices paths i)), tr @ snd (probe_batches e orig (slices paths i)))"
proof (induction e orig paths i feeds tr rule: probe_loop.induct)
  case (1 e orig paths i feeds tr)
  note feeds = \<open>feeds = []\<close>
  show ?case
  proof (cases "i < length paths")
    case False
    then show ?thesis
      by (simp add: feeds probe_loop.simps [of e orig paths i] slices.simps [of paths i]
          probe_batches_def)
  next
    case True
    let ?b = "take 3 (drop i paths)"
    have hits: "List.map_filter fst (map (probe_path e orig) ?b) = probe_hits e orig ?b"
      by (simp add: probe_hits_def map_filter_map)
    have reqs: "concat (map snd (map (probe_path e orig) ?b)) = probe_requests e orig ?b"
      by (simp add: probe_requests_def comp_def)
    show ?thesis
    proof (cases "probe_hits e orig ?b = []")
      case False
      with True show ?thesis
        by (simp add: feeds hits reqs probe_loop.simps [of e orig paths i] slices.simps [of paths i]
            probe_batches_def Let_def del: map_map)
    next
      case empty: True
      have step: "probe_loop e orig paths i feeds tr
          = probe_loop e orig paths (i + 3) (feeds @ List.map_filter fst (map (probe_path e orig) ?b))
              (tr @ concat (map snd (map (probe_path e orig) ?b)))"
        using True empty
        by (simp add: feeds hits probe_loop.simps [of e orig paths i "[]" tr] Let_def del: map_map)
      have "probe_loop e orig paths (i + 3) (feeds @ List.map_filter fst (map (probe_path e orig) ?b))
              (tr @ concat (map snd (map (probe_path e orig) ?b)))
          = (fst (probe_batches e orig (slices paths (i + 3))),
             (tr @ concat (map snd (map (probe_path e orig) ?b)))
               @ snd (probe_batches e orig (slices paths (i + 3))))"
        using True empty
        by (intro "1.IH" [OF True refl refl refl refl]) (simp_all add: feeds hits)
      with step show ?thesis
        using True empty
        by (simp add: reqs slices.simps [of paths i] probe_batches_def Let_def del: map_map)
    qed
  qed
qed


lemma slices_common: "slices COMMON_FEED_PATHS 0 = feed_batches"
  by (simp add: COMMON_FEED_PATHS_def feed_batches_def slices.simps [of _ 0] slices.simps [of _ 3]
      slices.simps [of _ 6] slices.simps [of _ 9] slices.simps [of _ 12])

lemma probeFeedPaths_batches: "probeFeedPaths e orig = probe_batches e orig feed_batches"
  using probe_loop_batches [of "[]" e orig COMMON_FEED_PATHS 0 "[]"]
  by (simp add: probeFeedPaths_def slices_common)

lemma probe_path_hit:
  "(fst (probe_path e orig path) \<noteq> None) =
     (valid (validateUrl (env_new_URL e) (orig @ path)) \<and>
      feed_like (env_fetch e FeedProbe (orig @ path)))"
  by (auto simp: probe_path_def feed_like_def ok_def or_else_def Let_def
      split: fetch_outcome.splits option.splits)

lemma probe_path_url: "fst (probe_path e orig path) = Some f \<Longrightarrow> fi_url f = orig @ path"
  by (auto simp: probe_path_def Let_def split: fetch_outcome.splits if_splits)

lemma probe_path_request:
  "snd (probe_path e orig path) =
     (if valid (validateUrl (env_new_URL e) (orig @ path)) then [(FeedProbe, orig @ path)] else [])"
  by (simp add: probe_path_def Let_def)

lemma probe_path_rss:
  assumes "valid (validateUrl (env_new_URL e) (orig @ path))"
    and "env_fetch e FeedProbe (orig @ path) = Responds r"
    and "r_status r = 200" and "r_content_type r = Some ''application/rss+xml''"
  shows "fst (probe_path e orig path) = Some \<lparr>fi_url = orig @ path, fi_title = None, fi_type = Rss\<rparr>"
  using assms by (simp add: probe_path_def Let_def ok_def or_else_def)


text \<open>
  C6, as amended. The ten common feed paths are probed in the batches
  \<open>feed_batches\<close> of three paths (the last of one), each probe a HEAD request to a
  validated URL. A probe yields a candidate exactly when its URL is valid and the
  response has a status from 200 to 299 and a content type that contains \<open>xml\<close>,
  \<open>rss\<close> or \<open>atom\<close>; a probe that throws yields none and stops nothing. The
  first batch with a candidate ends the probing and its candidates are the result. When
  \<open>/feed\<close> answers 200 with the content type \<open>application/rss+xml\<close>, the result
  starts with the candidate at \<open>/feed\<close>, followed by those of \<open>/rss\<close> and
  \<open>/atom.xml\<close>, the other paths of the first batch, if they answer as feeds too; the
  requests are those of the first batch and no other.
\<close>

theorem probeFeedPaths_spec:
  "probeFeedPaths e orig = probe_batches e orig feed_batches \<and>
   concat feed_batches = COMMON_FEED_PATHS \<and>
   (fst (probe_path e orig path) \<noteq> None) =
     (valid (validateUrl (env_new_URL e) (orig @ path)) \<and>
      feed_like (env_fetch e FeedProbe (orig @ path))) \<and>
   (case fst (probe_path e orig path) of None \<Rightarrow> True | Some f \<Rightarrow> fi_url f = orig @ path) \<and>
   snd (probe_path e orig path) =
     (if valid (validateUrl (env_new_URL e) (orig @ path)) then [(FeedProbe, orig @ path)] else []) \<and>
   (valid (validateUrl (env_new_URL e) (orig @ ''/feed'')) \<and>
    env_fetch e FeedProbe (orig @ ''/feed'') = Responds r \<and>
    r_status r = 200 \<and> r_content_type r = Some ''application/rss+xml'' \<longrightarrow>
      fst (probeFeedPaths e orig) =
        \<lparr>fi_url = orig @ ''/feed'', fi_title = None, fi_type = Rss\<rparr> #
        probe_hits e orig [''/rss'', ''/atom.xml''] \<and>
      snd (probeFeedPaths e orig) = probe_requests e orig [''/feed'', ''/rss'', ''/atom.xml''])"
proof -
  have url: "(case fst (probe_path e orig path) of None \<Rightarrow> True | Some f \<Rightarrow> fi_url f = orig @ path)"
    using probe_path_url [of e orig path] by (simp split: option.splits)
  have example: "fst (probeFeedPaths e orig) =
        \<lparr>fi_url = orig @ ''/feed'', fi_title = None, fi_type = Rss\<rparr> #
        probe_hits e orig [''/rss'', ''/atom.xml''] \<and>
      snd (probeFeedPaths e orig) = probe_requests e orig [''/feed'', ''/rss'', ''/atom.xml'']"
    if "valid (validateUrl (env_new_URL e) (orig @ ''/feed''))"
      and "env_fetch e FeedProbe (orig @ ''/feed'') = Responds r"
      and "r_status r = 200" and "r_content_type r = Some ''application/rss+xml''"
  proof -
    have first: "probe_hits e orig [''/feed'', ''/rss'', ''/atom.xml''] =
        \<lparr>fi_url = orig @ ''/feed'', fi_title = None, fi_type = Rss\<rparr> #
        probe_hits e orig [''/rss'', ''/atom.xml'']"
      using probe_path_rss [OF that] by (simp add: probe_hits_def List.map_filter_simps)
    then show ?thesis
      by (simp add: probeFeedPaths_batches probe_batches_def feed_batches_def)
  qed
  have batches: "concat feed_batches = COMMON_FEED_PATHS"
    by (simp add: feed_batches_def COMMON_FEED_PATHS_def)
  from probeFeedPaths_batches [of e orig] batches probe_path_hit [of e orig path] url
    probe_path_request [of e orig path] example
  show ?thesis by blast
qed

lemma blog_lookup:
  "path \<in> set COMMON_FEED_PATHS \<Longrightarrow>
   table_URL blog_table (''https://blog.example.com'' @ path) = Some (blog_url path)"
proof -
  assume path: "path \<in> set COMMON_FEED_PATHS"
  let ?B = "''https://blog.example.com''"
  let ?ps = "''/'' # COMMON_FEED_PATHS"
  let ?tbl = "map (\<lambda>p. (?B @ p, blog_url p)) ?ps"
  have "distinct ?ps" by (simp add: COMMON_FEED_PATHS_def)
  then have "distinct (map fst ?tbl)"
    by (simp only: map_map comp_def fst_conv distinct_map) (simp add: inj_on_def)
  moreover from path have "(?B @ path, blog_url path) \<in> set ?tbl" by auto
  ultimately have "map_of ?tbl (?B @ path) = Some (blog_url path)"
    by (rule map_of_is_SomeI)
  moreover from path have "path \<noteq> []" by (auto simp: COMMON_FEED_PATHS_def)
  ultimately show ?thesis
    by (simp add: table_URL_def blog_table_def del: append.simps)
qed

lemma blog_url_valid: "new_URL s = Some (blog_url p) \<Longrightarrow> valid (validateUrl new_URL s)"
  by (simp add: validateUrl_def blog_url_def isBlockedHostname_def BLOCKED_HOSTNAMES_def
      BLOCKED_HOSTNAME_PATTERNS_def toLowerCase_def to_lower_char_def suffix_to_prefix
      looksLikeIP_def is_digit_def digits_def Let_def)

lemma blog_valid:
  "path \<in> set COMMON_FEED_PATHS \<Longrightarrow>
   valid (validateUrl (table_URL blog_table) (''https://blog.example.com'' @ path))"
  using blog_lookup blog_url_valid by blast

theorem probeFeedPaths_spec_witness:
  "probeFeedPaths one_feed_env ''https://blog.example.com'' =
     ([\<lparr>fi_url = ''https://blog.example.com/feed'', fi_title = None, fi_type = Rss\<rparr>],
      [(FeedProbe, ''https://blog.example.com/feed''), (FeedProbe, ''https://blog.example.com/rss''),
       (FeedProbe, ''https://blog.example.com/atom.xml'')])"
proof -
  have v: "valid (validateUrl (env_new_URL one_feed_env) (''https://blog.example.com'' @ ''/feed''))"
    "valid (validateUrl (env_new_URL one_feed_env) (''https://blog.example.com'' @ ''/rss''))"
    "valid (validateUrl (env_new_URL one_feed_env) (''https://blog.example.com'' @ ''/atom.xml''))"
    using blog_valid by (simp_all add: one_feed_env_def COMMON_FEED_PATHS_def del: append.simps)
  have f: "env_fetch one_feed_env FeedProbe (''https://blog.example.com'' @ ''/feed'') = Responds feed_response"
    "r_status feed_response = 200" "r_content_type feed_response = Some ''application/rss+xml''"
    by (simp_all add: one_feed_env_def feed_response_def)
  have others: "probe_hits one_feed_env ''https://blog.example.com'' [''/rss'', ''/atom.xml''] = []"
    using v(2,3)
    by (simp add: probe_hits_def probe_path_def List.map_filter_simps Let_def)
       (simp add: one_feed_env_def not_found_def ok_def)
  have reqs: "probe_requests one_feed_env ''https://blog.example.com'' [''/feed'', ''/rss'', ''/atom.xml'']
      = [(FeedProbe, ''https://blog.example.com/feed''), (FeedProbe, ''https://blog.example.com/rss''),
       (FeedProbe, ''https://blog.example.com/atom.xml'')]"
    using v by (simp add: probe_requests_def probe_path_def Let_def)
  from probeFeedPaths_spec [of one_feed_env "''https://blog.example.com''" "''/feed''" feed_response]
    v(1) f
  have "fst (probeFeedPaths one_feed_env ''https://blog.example.com'') =
        \<lparr>fi_url = ''https://blog.example.com'' @ ''/feed'', fi_title = None, fi_type = Rss\<rparr> #
        probe_hits one_feed_env ''https://blog.example.com'' [''/rss'', ''/atom.xml''] \<and>
      snd (probeFeedPaths one_feed_env ''https://blog.example.com'') =
        probe_requests one_feed_env ''https://blog.example.com'' [''/feed'', ''/rss'', ''/atom.xml'']"
    by blast
  then show ?thesis
    by (simp add: others reqs prod_eq_iff)
qed

text \<open>
  C6 as stated promises exactly one candidate whenever \<open>/feed\<close> answers as a feed. On
  a site where \<open>/rss\<close> and \<open>/atom.xml\<close> answer as feeds too, the three probes of the
  first batch give three candidates.
\<close>

theorem probeFeedPaths_counterexample:
  "valid (validateUrl (env_new_URL all_feeds_env) ''https://blog.example.com/feed'') \<and>
   env_fetch all_feeds_env FeedProbe ''https://blog.example.com/feed'' = Responds feed_response \<and>
   r_status feed_response = 200 \<and>
   r_content_type feed_response = Some ''application/rss+xml'' \<and>
   map fi_url (fst (probeFeedPaths all_feeds_env ''https://blog.example.com'')) =
     [''https://blog.example.com/feed'', ''https://blog.example.com/rss'',
      ''https://blog.example.com/atom.xml'']"
proof -
  have v: "valid (validateUrl (env_new_URL all_feeds_env) (''https://blog.example.com'' @ ''/feed''))"
    "valid (validateUrl (env_new_URL all_feeds_env) (''https://blog.example.com'' @ ''/rss''))"
    "valid (validateUrl (env_new_URL all_feeds_env) (''https://blog.example.com'' @ ''/atom.xml''))"
    using blog_valid by (simp_all add: all_feeds_env_def COMMON_FEED_PATHS_def del: append.simps)
  have hits: "map fi_url (probe_hits all_feeds_env ''https://blog.example.com'' [''/feed'', ''/rss'', ''/atom.xml''])
     = [''https://blog.example.com/feed'', ''https://blog.example.com/rss'',
      ''https://blog.example.com/atom.xml'']"
    using v
    by (simp add: probe_hits_def probe_path_def List.map_filter_simps Let_def)
       (simp add: all_feeds_env_def feed_response_def ok_def or_else_def)
  then have "probe_hits all_feeds_env ''https://blog.example.com'' [''/feed'', ''/rss'', ''/atom.xml''] \<noteq> []"
    by auto
  with hits have "map fi_url (fst (probeFeedPaths all_feeds_env ''https://blog.example.com'')) =
     [''https://blog.example.com/feed'', ''https://blog.example.com/rss'',
      ''https://blog.example.com/atom.xml'']"
    by (simp add: probeFeedPaths_batches probe_batches_def feed_batches_def)
  with v(1) show ?thesis
    by (simp add: all_feeds_env_def feed_response_def)
qed

subsection \<open>Status codes of the handler\<close>












lemma handler_cases:
  assumes "req_method req = ''POST''"
    and "is_authenticated (validateAuth (env_API_KEY e) (req_api_key req))"
  shows "handler e req =
     (case parsed_body e req of
        None \<Rightarrow>
          (Responded \<lparr>res_status = 400,
             res_body = ErrorBody INVALID_URL ''Invalid request body'' None\<rparr>, [])
      | Some b \<Rightarrow>
          (case url_field b of
             Some u \<Rightarrow> (Responded (fst (discover e (trim u))), snd (discover e (trim u)))
           | None \<Rightarrow>
               if b = JUndefined \<or> b = JNull then (Uncaught TypeError, [])
               else (Responded \<lparr>res_status = 400,
                       res_body = ErrorBody INVALID_URL ''Missing required field: url'' None\<rparr>,
                     [])))"
proof -
  from assms(2) obtain a where a: "validateAuth (env_API_KEY e) (req_api_key req) = Inr a"
      "authenticated a"
    by (auto simp: is_authenticated_def split: sum.splits)
  have body: "(case req_body req of JString s \<Rightarrow> env_JSON_parse e s | b \<Rightarrow> Some b) = parsed_body e req"
    by (simp add: parsed_body_def)
  show ?thesis
    unfolding handler_def body
    by (auto simp: assms(1) a url_field_def get_property_def
        split: option.splits js_value.splits prod.splits)
qed





lemma ssrf_env_auth:
  "req_method (discover_request u) = ''POST''"
  "is_authenticated (validateAuth (env_API_KEY ssrf_env) (req_api_key (discover_request u)))"
  by (simp_all add: discover_request_def ssrf_env_def validateAuth_def is_authenticated_def)



subsection \<open>Requests to URLs that were not validated\<close>

text \<open>
  C1. The handler validates the URL of the request and every probe URL, and nothing
  else. The feed that a homepage declares in a \<open>link\<close> element is read by
  \<open>parseFeed\<close> as the page gives it: for the homepage of \<open>ssrf_env\<close> the handler
  issues a request to \<open>http://169.254.169.254/latest/meta-data/\<close>, a URL that
  \<open>validateUrl\<close> was never asked about and that it blocks.
\<close>

theorem handler_fetches_unvalidated:
  "snd (handler ssrf_env (discover_request ''https://blog.example.com'')) =
     [(HomepageFetch, ''https://blog.example.com''),
      (FeedParse, ''http://169.254.169.254/latest/meta-data/'')] \<and>
   error_code_of (validateUrl (env_new_URL ssrf_env) ''http://169.254.169.254/latest/meta-data/'')
     = Some BLOCKED_URL"
proof -
  let ?u = "''https://blog.example.com''"
  let ?m = "''http://169.254.169.254/latest/meta-data/''"
  have body: "parsed_body ssrf_env (discover_request ?u) = Some (JObject [(''url'', JString ?u)])"
    "url_field (JObject [(''url'', JString ?u)]) = Some ?u"
    by (simp_all add: parsed_body_def discover_request_def url_field_def)
  have input: "trim ?u = ?u" "\<not> isUsernameInput ?u" "normalizeUrl ?u = ?u"
    by (simp_all add: trim_def is_space_def isUsernameInput_def username_chars_def normalizeUrl_def)
  have v: "validateUrl (env_new_URL ssrf_env) ?u =
      \<lparr>valid = True, error = None, validated_url = Some (blog_url ''/'')\<rparr>"
    by (simp add: ssrf_env_def ssrf_table_def table_URL_def validateUrl_def blog_url_def
        isBlockedHostname_def BLOCKED_HOSTNAMES_def BLOCKED_HOSTNAME_PATTERNS_def toLowerCase_def
        to_lower_char_def suffix_to_prefix looksLikeIP_def is_digit_def digits_def Let_def)
  have t: "detectInputType (blog_url ''/'') = Homepage"
    by (simp add: detectInputType_def blog_url_def toLowerCase_def to_lower_char_def
        suffix_to_prefix digits_def)
  have feeds: "discoverFeedsFromHtml ssrf_env link_document ?u =
      [\<lparr>fi_url = ?m, fi_title = None, fi_type = Rss\<rparr>]"
    by (simp add: discoverFeedsFromHtml_def link_document_def List.map_filter_simps feed_of_link_def
        getAttribute_def or_null_def toLowerCase_def to_lower_char_def resolveUrl_def Let_def)
  have "\<exists>res. finish_discovery ssrf_env Homepage ?u
      \<lparr>site_icon = extractFavicon ssrf_env link_document ?u,
       og_image = extractOgImage ssrf_env link_document ?u\<rparr>
      [\<lparr>fi_url = ?m, fi_title = None, fi_type = Rss\<rparr>] = (res, [(FeedParse, ?m)])"
    by (simp add: finish_discovery_def parseFeed_def ssrf_env_def)
  then obtain res where fin: "finish_discovery ssrf_env Homepage ?u
      \<lparr>site_icon = extractFavicon ssrf_env link_document ?u,
       og_image = extractOgImage ssrf_env link_document ?u\<rparr>
      [\<lparr>fi_url = ?m, fi_title = None, fi_type = Rss\<rparr>] = (res, [(FeedParse, ?m)])"
    by blast
  have fetch: "env_fetch ssrf_env HomepageFetch ?u = Responds page_response"
    "env_parseHTML ssrf_env ''<html></html>'' = Inr link_document"
    by (simp_all add: ssrf_env_def)
  have size: "\<not> MAX_HTML_SIZE ssrf_env < length ''<html></html>''"
    by (simp add: MAX_HTML_SIZE_def ssrf_env_def)
  have page: "ok page_response" "r_body page_response = Inr ''<html></html>''"
    by (simp_all add: page_response_def ok_def)
  have hp: "snd (homepage_path ssrf_env Homepage ?u) = [(HomepageFetch, ?u), (FeedParse, ?m)]"
    using size by (simp add: homepage_path_def fetch page feeds fin Let_def)
  have "snd (discover ssrf_env ?u) = [(HomepageFetch, ?u), (FeedParse, ?m)]"
    by (simp add: discover_def input v t hp Let_def)
  moreover have "handler ssrf_env (discover_request ?u) =
      (Responded (fst (discover ssrf_env (trim ?u))), snd (discover ssrf_env (trim ?u)))"
    by (simp add: handler_cases [OF ssrf_env_auth] body)
  moreover have "error_code_of (validateUrl (env_new_URL ssrf_env) ?m) = Some BLOCKED_URL"
    by (simp add: ssrf_env_def ssrf_table_def table_URL_def validateUrl_def metadata_url_def
        isBlockedHostname_def BLOCKED_HOSTNAMES_def toLowerCase_def to_lower_char_def
        error_code_of_def)
  ultimately show ?thesis
    by (simp add: input)
qed

subsection \<open>The sanitized fragment\<close>





























subsection \<open>Splitting and joining\<close>





















subsection \<open>Resolving a srcset twice\<close>







subsection \<open>Sanitizing attributes twice\<close>














subsection \<open>Sanitizing a fragment twice\<close>














end
